theory Spec2Isabelle
  imports Main "HOL-Library.AList"
begin

section \<open>The API client of \<^verbatim>\<open>src/js/api-client.js\<close>\<close>

text \<open>
  The module wraps \<^verbatim>\<open>fetch\<close> with a retry loop, interprets HTTP 401 as the loss of
  authorisation, and keeps its credentials in one IndexedDB object store.  The embedding
  below makes every effect of the JavaScript explicit: functions take the state of the
  browser (\<open>world\<close>) and return the new one, a rejected promise or a thrown exception is
  the \<open>Inl\<close> of a sum, and what the network and the store answer is read off a schedule
  carried by the state.
\<close>

subsection \<open>Strings\<close>

text \<open>
  A JavaScript string is modelled by its UTF-8 bytes.  The program only compares strings,
  concatenates them and searches them for ASCII words, which UTF-8 preserves.  The Polish
  letters of the source's literals are spelled as their two bytes.
\<close>

abbreviation l_stroke :: string where "l_stroke \<equiv> [CHR 0xC5, CHR 0x82]"
abbreviation a_ogonek :: string where "a_ogonek \<equiv> [CHR 0xC4, CHR 0x85]"
abbreviation e_ogonek :: string where "e_ogonek \<equiv> [CHR 0xC4, CHR 0x99]"
abbreviation z_dot :: string where "z_dot \<equiv> [CHR 0xC5, CHR 0xBC]"
abbreviation o_acute :: string where "o_acute \<equiv> [CHR 0xC3, CHR 0xB3]"
abbreviation s_acute :: string where "s_acute \<equiv> [CHR 0xC5, CHR 0x9B]"
abbreviation c_acute :: string where "c_acute \<equiv> [CHR 0xC4, CHR 0x87]"
abbreviation z_acute :: string where "z_acute \<equiv> [CHR 0xC5, CHR 0xBA]"

text \<open>\<^verbatim>\<open>String.prototype.startsWith\<close> and \<^verbatim>\<open>String.prototype.includes\<close>.\<close>

fun starts_with :: "string \<Rightarrow> string \<Rightarrow> bool" where
  "starts_with s [] = True"
| "starts_with [] (c # cs) = False"
| "starts_with (d # ds) (c # cs) = (d = c \<and> starts_with ds cs)"

fun js_includes :: "string \<Rightarrow> string \<Rightarrow> bool" where
  "js_includes [] needle = (needle = [])"
| "js_includes (c # cs) needle = (starts_with (c # cs) needle \<or> js_includes cs needle)"

text \<open>The messages of the source, each named after the place that uses it.\<close>

definition session_expired_pl :: string where
  "session_expired_pl = ''Sesja wygas'' @ l_stroke @ ''a''"

definition unauthorized_pl :: string where
  "unauthorized_pl = ''Brak autoryzacji''"

definition refresh_failed_pl :: string where
  "refresh_failed_pl =
     ''Od'' @ s_acute @ ''wie'' @ z_dot @ ''anie nie powiod'' @ l_stroke @ ''o si'' @ e_ogonek"

definition no_refresh_token_pl :: string where
  "no_refresh_token_pl = ''Brak tokenu od'' @ s_acute @ ''wie'' @ z_dot @ ''ania''"

definition redirecting_pl :: string where
  "redirecting_pl = ''Przekierowywanie do aktywacji...''"

definition timeout_pl :: string where
  "timeout_pl =
     ''Przekroczono limit czasu po'' @ l_stroke @ a_ogonek @ ''czenia. Sprawd'' @ z_acute
     @ '' po'' @ l_stroke @ a_ogonek @ ''czenie internetowe.''"

definition connect_failed_pl :: string where
  "connect_failed_pl =
     ''Nie uda'' @ l_stroke @ ''o si'' @ e_ogonek @ '' po'' @ l_stroke @ a_ogonek @ ''czy''
     @ c_acute @ '' z serwerem. Sprawd'' @ z_acute @ '' po'' @ l_stroke @ a_ogonek
     @ ''czenie internetowe i spr'' @ o_acute @ ''buj ponownie.''"

definition not_authenticated_pl :: string where
  "not_authenticated_pl = ''Brak autoryzacji. Zaloguj si'' @ e_ogonek @ '' ponownie.''"

definition API_BASE_URL :: string where
  "API_BASE_URL = ''https://butilive.adadad1314asda.workers.dev''"

subsection \<open>Values\<close>

text \<open>
  The values that JSON and IndexedDB's structured clone carry.  A number is kept as its
  canonical rendering (what \<^verbatim>\<open>String(n)\<close> gives: \<open>''42''\<close>, \<open>''1.5''\<close>, \<open>''NaN''\<close>), since
  the program never computes with a number it received or stored: it tests it for
  truthiness, prints it into a string, or stores it again.  An object is the list of its
  own properties in insertion order.
\<close>

datatype jsval =
    JUndefined
  | JNull
  | JBool bool
  | JNum string
  | JStr string
  | JArr "jsval list"
  | JObj "(string \<times> jsval) list"

fun truthy :: "jsval \<Rightarrow> bool" where
  "truthy JUndefined = False"
| "truthy JNull = False"
| "truthy (JBool b) = b"
| "truthy (JNum n) = (n \<noteq> ''0'' \<and> n \<noteq> ''NaN'')"
| "truthy (JStr s) = (s \<noteq> [])"
| "truthy (JArr xs) = True"
| "truthy (JObj fs) = True"

text \<open>
  \<open>js_member v k\<close> is the expression \<^verbatim>\<open>v.k\<close> for the property names this program reads off
  data (\<^verbatim>\<open>error\<close>, \<^verbatim>\<open>accessToken\<close>, \<^verbatim>\<open>refreshToken\<close>, \<^verbatim>\<open>access_token\<close>,
  \<^verbatim>\<open>refresh_token\<close>), none of which a built-in prototype defines.  \<open>None\<close> is the
  TypeError of reading a property of \<^verbatim>\<open>null\<close> or \<^verbatim>\<open>undefined\<close>.
\<close>

fun js_member :: "jsval \<Rightarrow> string \<Rightarrow> jsval option" where
  "js_member JUndefined k = None"
| "js_member JNull k = None"
| "js_member (JObj fs) k = Some (case map_of fs k of None \<Rightarrow> JUndefined | Some v \<Rightarrow> v)"
| "js_member v k = Some JUndefined"

text \<open>
  \<open>js_field v k\<close> is \<^verbatim>\<open>v.k\<close> where the program has already tested \<open>v\<close> to be truthy, so
  that the read cannot throw: \<^verbatim>\<open>!authState || !authState.accessToken\<close>.
\<close>

definition js_field :: "jsval \<Rightarrow> string \<Rightarrow> jsval" where
  "js_field v k = (case js_member v k of None \<Rightarrow> JUndefined | Some t \<Rightarrow> t)"

text \<open>
  \<open>a || b\<close> on values.
\<close>

definition or_else :: "jsval \<Rightarrow> jsval \<Rightarrow> jsval" where
  "or_else a b = (if truthy a then a else b)"

text \<open>
  \<^verbatim>\<open>String(v)\<close>, as a template literal applies it.  \<^verbatim>\<open>Array.prototype.join\<close> prints
  \<^verbatim>\<open>null\<close> and \<^verbatim>\<open>undefined\<close> elements as the empty string.
\<close>

fun join_with :: "string \<Rightarrow> string list \<Rightarrow> string" where
  "join_with sep [] = []"
| "join_with sep [s] = s"
| "join_with sep (s # t # ts) = s @ sep @ join_with sep (t # ts)"

fun js_to_string :: "jsval \<Rightarrow> string" where
  "js_to_string JUndefined = ''undefined''"
| "js_to_string JNull = ''null''"
| "js_to_string (JBool b) = (if b then ''true'' else ''false'')"
| "js_to_string (JNum n) = n"
| "js_to_string (JStr s) = s"
| "js_to_string (JArr xs) =
     join_with '','' (map (\<lambda>x. if x = JUndefined \<or> x = JNull then [] else js_to_string x) xs)"
| "js_to_string (JObj fs) = ''[object Object]''"

text \<open>
  Object spread into an object literal, \<^verbatim>\<open>{ ...a, ...b }\<close>: the properties of \<open>b\<close> are
  assigned in their order onto those of \<open>a\<close>; an assignment to an existing key keeps the
  key's place.  The list keeps the order of assignment; JavaScript enumerates keys that
  are array indices (\<^verbatim>\<open>"7"\<close>) before the others, which the list does not show.  The
  program reads the result by key only, and so do the properties below (\<open>map_of\<close>): the
  keys and their values are those of the JavaScript object.
\<close>

definition spread :: "(string \<times> jsval) list \<Rightarrow> (string \<times> jsval) list \<Rightarrow> (string \<times> jsval) list" where
  "spread a b = fold (\<lambda>(k, v). AList.update k v) b a"

subsection \<open>The message translator (lines 54--74)\<close>

text \<open>
  The table is an object literal, so \<^verbatim>\<open>translations[error]\<close> is a property read: it
  finds the literal's own entries and, failing that, the members every plain object
  inherits from \<^verbatim>\<open>Object.prototype\<close>.  Those are functions (and, for \<^verbatim>\<open>__proto__\<close>, the
  prototype object itself), all truthy, so \<^verbatim>\<open>||\<close> returns them.
\<close>

definition translation_table :: "(string \<times> string) list" where
  "translation_table =
    [ (''Session expired'', ''Sesja wygas'' @ l_stroke @ ''a''),
      (''Unauthorized'', ''Brak autoryzacji''),
      (''Token expired'', ''Token wygas'' @ l_stroke),
      (''Device not found'', ''Urz'' @ a_ogonek @ ''dzenie nie znalezione''),
      (''Device revoked'',
         ''Urz'' @ a_ogonek @ ''dzenie zosta'' @ l_stroke @ ''o uniewa'' @ z_dot @ ''nione''),
      (''Admin key blocked'', ''Klucz administratora zosta'' @ l_stroke @ '' zablokowany''),
      (''Admin key deleted'',
         ''Klucz administratora zosta'' @ l_stroke @ '' usuni'' @ e_ogonek @ ''ty''),
      (''Admin key expired'', ''Klucz administratora wygas'' @ l_stroke),
      (''Device not bound to any key'',
         ''Urz'' @ a_ogonek @ ''dzenie nie jest powi'' @ a_ogonek @ ''zane z '' @ z_dot
         @ ''adnym kluczem''),
      (''Refresh failed'',
         ''Od'' @ s_acute @ ''wie'' @ z_dot @ ''anie nie powiod'' @ l_stroke @ ''o si'' @ e_ogonek),
      (''No refresh token'', ''Brak tokenu od'' @ s_acute @ ''wie'' @ z_dot @ ''ania''),
      (''Network error'', ''B'' @ l_stroke @ a_ogonek @ ''d po'' @ l_stroke @ a_ogonek
         @ ''czenia z serwerem''),
      (''Timeout'', ''Przekroczono limit czasu po'' @ l_stroke @ a_ogonek @ ''czenia''),
      (''Failed to fetch'',
         ''Nie uda'' @ l_stroke @ ''o si'' @ e_ogonek @ '' po'' @ l_stroke @ a_ogonek @ ''czy''
         @ c_acute @ '' z serwerem'') ]"

definition object_prototype_keys :: "string list" where
  "object_prototype_keys =
    [ ''constructor'', ''__proto__'', ''hasOwnProperty'', ''isPrototypeOf'',
      ''propertyIsEnumerable'', ''toLocaleString'', ''toString'', ''valueOf'',
      ''__defineGetter__'', ''__defineSetter__'', ''__lookupGetter__'', ''__lookupSetter__'' ]"

text \<open>
  What \<^verbatim>\<open>translateErrorMessage\<close> returns for a string argument: a string, or the member
  of \<^verbatim>\<open>Object.prototype\<close> of the given name.
\<close>

datatype translated = Text string | Inherited string

definition translateErrorMessage :: "string \<Rightarrow> translated" where
  "translateErrorMessage error =
     (case map_of translation_table error of
        Some polish \<Rightarrow> (if polish \<noteq> [] then Text polish else Text error)
      | None \<Rightarrow>
          (if error \<in> set object_prototype_keys then Inherited error else Text error))"

subsection \<open>Errors, responses and the state of the browser\<close>

text \<open>
  A thrown value: every value this program throws or catches is an \<^verbatim>\<open>Error\<close> or a
  \<^verbatim>\<open>DOMException\<close>, of which it reads \<^verbatim>\<open>name\<close> and \<^verbatim>\<open>message\<close>.  The messages of
  the TypeErrors the runtime itself raises are V8's.
\<close>

datatype js_error = JsError (err_name: string) (err_message: string)

definition new_Error :: "string \<Rightarrow> js_error" where
  "new_Error msg = JsError ''Error'' msg"

definition cannot_read :: "jsval \<Rightarrow> string \<Rightarrow> js_error" where
  "cannot_read v k =
     JsError ''TypeError''
       (''Cannot read properties of '' @ js_to_string v @ '' (reading ''
        @ [CHR 0x27] @ k @ [CHR 0x27] @ '')'')"

definition not_a_function :: "string \<Rightarrow> js_error" where
  "not_a_function what = JsError ''TypeError'' (what @ '' is not a function'')"

text \<open>
  A response: its status and what \<^verbatim>\<open>response.json()\<close> settles to, the parsed body or the
  error of a body that is not JSON.
\<close>

record response =
  status :: nat
  body :: "js_error + jsval"

definition ok :: "response \<Rightarrow> bool" where
  "ok r = (200 \<le> status r \<and> status r \<le> 299)"

datatype fetch_outcome = Resolved response | Rejected js_error

text \<open>
  \<^verbatim>\<open>await response.json().catch(() => ({ error: fallback }))\<close>, lines 98--100 and
  215--217.
\<close>

definition json_or :: "response \<Rightarrow> string \<Rightarrow> jsval" where
  "json_or response fallback =
     (case body response of
        Inl e \<Rightarrow> JObj [(''error'', JStr fallback)]
      | Inr v \<Rightarrow> v)"

text \<open>
  What the program does to the outside, in order: the entry into the invalidation handler
  with its reason (the warning of line 12), a call of \<^verbatim>\<open>fetch\<close> with its URL and the
  \<^verbatim>\<open>headers\<close> of its options, a backoff sleep in milliseconds, an assignment to
  \<^verbatim>\<open>window.location.href\<close>.  The other console output is not recorded.
\<close>

datatype event =
    Invalidated jsval
  | Fetched string jsval
  | Slept nat
  | Navigated string

text \<open>
  The state: the object store \<^verbatim>\<open>auth_state\<close> of the database \<^verbatim>\<open>obywatel_auth\<close>,
  \<^verbatim>\<open>sessionStorage\<close>, \<^verbatim>\<open>window.__devicePrivateKey\<close> (\<open>None\<close> when the property does not
  exist), \<^verbatim>\<open>window.location.href\<close>, the events so far, and the two schedules: for each
  coming IndexedDB request the error it fails with, if any, and for each coming
  \<^verbatim>\<open>fetch\<close> what it settles to.  A request beyond the end of \<open>idb_faults\<close> succeeds; a
  \<^verbatim>\<open>fetch\<close> beyond the end of \<open>net\<close> gets no answer, so the 15 second timer of line 87
  aborts it.
\<close>

record world =
  idb :: "(string \<times> jsval) list"
  session :: "(string \<times> string) list"
  devicePrivateKey :: "jsval option"
  location :: string
  trace :: "event list"
  idb_faults :: "js_error option list"
  net :: "fetch_outcome list"

definition emit :: "event \<Rightarrow> world \<Rightarrow> world" where
  "emit e w = w\<lparr>trace := trace w @ [e]\<rparr>"

subsection \<open>IndexedDB helpers (lines 241--273)\<close>

text \<open>
  Each helper is one request on the store; it rejects with the request's error when the
  schedule says so.  There is one database, so the handle \<^verbatim>\<open>db\<close> is left out.
\<close>

text \<open>What a successful \<^verbatim>\<open>store.get(key)\<close> gives: the record, or \<^verbatim>\<open>undefined\<close>.\<close>

definition stored :: "world \<Rightarrow> string \<Rightarrow> jsval" where
  "stored w key = (case map_of (idb w) key of None \<Rightarrow> JUndefined | Some v \<Rightarrow> v)"

definition idb_request :: "world \<Rightarrow> js_error option \<times> world" where
  "idb_request w =
     (case idb_faults w of
        [] \<Rightarrow> (None, w)
      | f # fs \<Rightarrow> (f, w\<lparr>idb_faults := fs\<rparr>))"

definition openDB :: "world \<Rightarrow> (js_error + unit) \<times> world" where
  "openDB w =
     (case idb_request w of
        (Some e, w1) \<Rightarrow> (Inl e, w1)
      | (None, w1) \<Rightarrow> (Inr (), w1))"

definition getFromDB :: "string \<Rightarrow> world \<Rightarrow> (js_error + jsval) \<times> world" where
  "getFromDB key w =
     (case idb_request w of
        (Some e, w1) \<Rightarrow> (Inl e, w1)
      | (None, w1) \<Rightarrow>
          (Inr (stored w1 key), w1))"

definition setInDB :: "string \<Rightarrow> jsval \<Rightarrow> world \<Rightarrow> (js_error + unit) \<times> world" where
  "setInDB key val w =
     (case idb_request w of
        (Some e, w1) \<Rightarrow> (Inl e, w1)
      | (None, w1) \<Rightarrow> (Inr (), w1\<lparr>idb := AList.update key val (idb w1)\<rparr>))"

text \<open>The \<^verbatim>\<open>store.clear()\<close> request of lines 24--30.\<close>

definition clearStore :: "world \<Rightarrow> (js_error + unit) \<times> world" where
  "clearStore w =
     (case idb_request w of
        (Some e, w1) \<Rightarrow> (Inl e, w1)
      | (None, w1) \<Rightarrow> (Inr (), w1\<lparr>idb := []\<rparr>))"

subsection \<open>The invalidation handler (lines 11--49)\<close>

text \<open>
  Lines 21--45, one \<^verbatim>\<open>try\<close> block: open the database, clear the store, remove the two
  session flags, delete the key held in memory when it is truthy.  An error of the first
  or the second step leaves the block; the \<^verbatim>\<open>catch\<close> only logs it.
\<close>

definition clear_auth_data :: "world \<Rightarrow> world" where
  "clear_auth_data w =
     (case openDB w of
        (Inl e, w1) \<Rightarrow> w1
      | (Inr db, w1) \<Rightarrow>
          (case clearStore w1 of
             (Inl e, w2) \<Rightarrow> w2
           | (Inr u, w2) \<Rightarrow>
               w2\<lparr>session :=
                    AList.delete ''auth_validated_at''
                      (AList.delete ''auth_validated'' (session w2)),
                  devicePrivateKey :=
                    (case devicePrivateKey w2 of
                       None \<Rightarrow> None
                     | Some key \<Rightarrow> if truthy key then None else Some key)\<rparr>))"

text \<open>
  \<^verbatim>\<open>reason.includes\<close> is a function for a string and for an array; for any other truthy
  value (a number, \<^verbatim>\<open>true\<close>, an object read from JSON) the call on line 15 is a
  TypeError, thrown before the \<^verbatim>\<open>try\<close> block.
\<close>

fun has_includes :: "jsval \<Rightarrow> bool" where
  "has_includes (JStr s) = True"
| "has_includes (JArr xs) = True"
| "has_includes v = False"

definition navigate :: "string \<Rightarrow> world \<Rightarrow> world" where
  "navigate href w = emit (Navigated href) (w\<lparr>location := href\<rparr>)"

text \<open>
  The argument \<open>JUndefined\<close> is the call without a reason, which takes the default of
  line 11.  The message of lines 17--18 goes to the console only, and computing it cannot
  throw.
\<close>

definition clearAuthAndRedirect :: "jsval \<Rightarrow> world \<Rightarrow> (js_error + unit) \<times> world" where
  "clearAuthAndRedirect given w =
     (let reason = (if given = JUndefined then JStr session_expired_pl else given);
          w1 = emit (Invalidated reason) w
      in if truthy reason \<and> \<not> has_includes reason
         then (Inl (not_a_function ''reason.includes''), w1)
         else (Inr (), navigate ''./index.html'' (clear_auth_data w1)))"

subsection \<open>Fetch with retry (lines 79--148)\<close>

definition maxRetries :: nat where
  "maxRetries = 3"

definition baseDelay :: nat where
  "baseDelay = 500"

definition timeout_abort :: js_error where
  "timeout_abort = JsError ''AbortError'' ''signal is aborted without reason''"

text \<open>
  Line 89.  Of the options only \<^verbatim>\<open>headers\<close> is kept: the answer comes from the schedule,
  whatever the request says.
\<close>

definition fetch :: "string \<Rightarrow> jsval \<Rightarrow> world \<Rightarrow> fetch_outcome \<times> world" where
  "fetch url headers w =
     (let w1 = emit (Fetched url headers) w
      in case net w1 of
           [] \<Rightarrow> (Rejected timeout_abort, w1)
         | outcome # rest \<Rightarrow> (outcome, w1\<lparr>net := rest\<rparr>))"

text \<open>The \<^verbatim>\<open>try\<close> block of one attempt, lines 86--105.\<close>

definition attempt_try :: "string \<Rightarrow> jsval \<Rightarrow> world \<Rightarrow> (js_error + response) \<times> world" where
  "attempt_try url headers w =
     (case fetch url headers w of
        (Rejected e, w1) \<Rightarrow> (Inl e, w1)
      | (Resolved response, w1) \<Rightarrow>
          if status response = 401 then
            (let error = json_or response unauthorized_pl
             in case js_member error ''error'' of
                  None \<Rightarrow> (Inl (cannot_read error ''error''), w1)
                | Some reason \<Rightarrow>
                    (case clearAuthAndRedirect (or_else reason (JStr unauthorized_pl)) w1 of
                       (Inl e, w2) \<Rightarrow> (Inl e, w2)
                     | (Inr u, w2) \<Rightarrow> (Inl (new_Error redirecting_pl), w2)))
          else (Inr response, w1))"

text \<open>Lines 128--133: what the \<^verbatim>\<open>catch\<close> block throws when it does not retry.\<close>

definition rethrow :: "js_error \<Rightarrow> js_error" where
  "rethrow err =
     (if js_includes (err_message err) ''fetch'' then new_Error connect_failed_pl else err)"

definition sleep :: "nat \<Rightarrow> world \<Rightarrow> world" where
  "sleep ms w = emit (Slept ms) w"

text \<open>
  The loop of line 84, from a given value of \<^verbatim>\<open>attempt\<close>.  Falling off its end returns
  \<^verbatim>\<open>undefined\<close>, here \<open>None\<close>.
\<close>

function apiFetch_from ::
  "nat \<Rightarrow> string \<Rightarrow> jsval \<Rightarrow> world \<Rightarrow> (js_error + response option) \<times> world" where
  "apiFetch_from attempt url headers w =
     (if attempt < maxRetries then
        (case attempt_try url headers w of
           (Inr response, w1) \<Rightarrow> (Inr (Some response), w1)
         | (Inl err, w1) \<Rightarrow>
             if err_name err = ''AbortError'' \<and> attempt = maxRetries - 1
             then (Inl (new_Error timeout_pl), w1)
             else if err_message err = redirecting_pl \<or> attempt = maxRetries - 1
             then (Inl (rethrow err), w1)
             else apiFetch_from (Suc attempt) url headers (sleep (baseDelay * 2 ^ attempt) w1))
      else (Inr None, w))"
  by pat_completeness auto
termination
  by (relation "measure (\<lambda>(attempt, url, headers, w). maxRetries - attempt)") auto

declare apiFetch_from.simps [simp del]

definition apiFetch :: "string \<Rightarrow> jsval \<Rightarrow> world \<Rightarrow> (js_error + response option) \<times> world" where
  "apiFetch url headers w = apiFetch_from 0 url headers w"

subsection \<open>Authenticated requests (lines 153--188)\<close>

definition getAuthHeaders :: "world \<Rightarrow> (js_error + (string \<times> jsval) list) \<times> world" where
  "getAuthHeaders w =
     (case openDB w of
        (Inl e, w1) \<Rightarrow> (Inl e, w1)
      | (Inr db, w1) \<Rightarrow>
          (case getFromDB ''auth_state'' w1 of
             (Inl e, w2) \<Rightarrow> (Inl e, w2)
           | (Inr authState, w2) \<Rightarrow>
               if \<not> truthy authState \<or> \<not> truthy (js_field authState ''accessToken'')
               then (Inl (new_Error not_authenticated_pl), w2)
               else
                 (case getFromDB ''install_id'' w2 of
                    (Inl e, w3) \<Rightarrow> (Inl e, w3)
                  | (Inr installId, w3) \<Rightarrow>
                      (Inr [ (''Authorization'',
                               JStr (''Bearer ''
                                     @ js_to_string (js_field authState ''accessToken''))),
                             (''X-PWA-Install-ID'', installId),
                             (''Content-Type'', JStr ''application/json'') ], w3))))"

text \<open>
  \<open>option_headers\<close> are the own properties of \<^verbatim>\<open>options.headers\<close> (none when the caller
  gives no headers), which line 183 spreads over the headers of \<^verbatim>\<open>getAuthHeaders\<close>.
\<close>

definition authenticatedRequest ::
  "string \<Rightarrow> (string \<times> jsval) list \<Rightarrow> world \<Rightarrow> (js_error + response option) \<times> world" where
  "authenticatedRequest endpoint option_headers w =
     (case getAuthHeaders w of
        (Inl e, w1) \<Rightarrow> (Inl e, w1)
      | (Inr headers, w1) \<Rightarrow>
          apiFetch (API_BASE_URL @ endpoint) (JObj (spread headers option_headers)) w1)"

subsection \<open>Token refresh (lines 193--238)\<close>

text \<open>
  The own properties an object spread copies.  The program spreads \<^verbatim>\<open>authState\<close> only
  after the guard of line 197, which only an object passes.
\<close>

fun own_props :: "jsval \<Rightarrow> (string \<times> jsval) list" where
  "own_props (JObj fs) = fs"
| "own_props v = []"

text \<open>The \<^verbatim>\<open>try\<close> block of lines 203--232.\<close>

definition refresh_try :: "jsval \<Rightarrow> world \<Rightarrow> (js_error + jsval) \<times> world" where
  "refresh_try authState w =
     (case apiFetch (API_BASE_URL @ ''/auth/refresh'')
             (JObj [(''Content-Type'', JStr ''application/json'')]) w of
        (Inl e, w1) \<Rightarrow> (Inl e, w1)
      | (Inr None, w1) \<Rightarrow> (Inl (cannot_read JUndefined ''ok''), w1)
      | (Inr (Some response), w1) \<Rightarrow>
          if \<not> ok response then
            (let error = json_or response refresh_failed_pl
             in case js_member error ''error'' of
                  None \<Rightarrow> (Inl (cannot_read error ''error''), w1)
                | Some reason \<Rightarrow>
                    (case clearAuthAndRedirect (or_else reason (JStr refresh_failed_pl)) w1 of
                       (Inl e, w2) \<Rightarrow> (Inl e, w2)
                     | (Inr u, w2) \<Rightarrow> (Inl (new_Error refresh_failed_pl), w2)))
          else
            (case body response of
               Inl e \<Rightarrow> (Inl e, w1)
             | Inr data \<Rightarrow>
                 (case (js_member data ''access_token'', js_member data ''refresh_token'') of
                    (Some access_token, Some refresh_token) \<Rightarrow>
                      (case setInDB ''auth_state''
                              (JObj (AList.update ''refreshToken'' refresh_token
                                       (AList.update ''accessToken'' access_token
                                          (own_props authState)))) w1 of
                         (Inl e, w2) \<Rightarrow> (Inl e, w2)
                       | (Inr u, w2) \<Rightarrow> (Inr access_token, w2))
                  | _ \<Rightarrow> (Inl (cannot_read data ''access_token''), w1))))"

definition refreshAccessToken :: "world \<Rightarrow> (js_error + jsval) \<times> world" where
  "refreshAccessToken w =
     (case openDB w of
        (Inl e, w1) \<Rightarrow> (Inl e, w1)
      | (Inr db, w1) \<Rightarrow>
          (case getFromDB ''auth_state'' w1 of
             (Inl e, w2) \<Rightarrow> (Inl e, w2)
           | (Inr authState, w2) \<Rightarrow>
               if \<not> truthy authState \<or> \<not> truthy (js_field authState ''refreshToken'')
               then
                 (case clearAuthAndRedirect (JStr no_refresh_token_pl) w2 of
                    (Inl e, w3) \<Rightarrow> (Inl e, w3)
                  | (Inr u, w3) \<Rightarrow> (Inl (new_Error no_refresh_token_pl), w3))
               else
                 (case refresh_try authState w2 of
                    (Inr token, w3) \<Rightarrow> (Inr token, w3)
                  | (Inl err, w3) \<Rightarrow>
                      (case clearAuthAndRedirect (JStr refresh_failed_pl) w3 of
                         (Inl e, w4) \<Rightarrow> (Inl e, w4)
                       | (Inr u, w4) \<Rightarrow> (Inl err, w4)))))"

subsection \<open>Predicates on the state, and a sample state\<close>

text \<open>The next \<open>n\<close> IndexedDB requests succeed.\<close>

definition store_ok :: "nat \<Rightarrow> world \<Rightarrow> bool" where
  "store_ok n w = list_all (\<lambda>f. f = None) (take n (idb_faults w))"

definition flags_absent :: "world \<Rightarrow> bool" where
  "flags_absent w =
     (map_of (session w) ''auth_validated'' = None
      \<and> map_of (session w) ''auth_validated_at'' = None)"

text \<open>\<^verbatim>\<open>window.__devicePrivateKey\<close> is missing or falsy.\<close>

definition secret_cleared :: "world \<Rightarrow> bool" where
  "secret_cleared w = (case devicePrivateKey w of None \<Rightarrow> True | Some key \<Rightarrow> \<not> truthy key)"

definition logged_out :: "world \<Rightarrow> bool" where
  "logged_out w = (idb w = [] \<and> flags_absent w \<and> secret_cleared w)"

text \<open>An activated installation, with a session validated in this tab.\<close>

definition sample_auth_state :: jsval where
  "sample_auth_state =
     JObj [ (''accessToken'', JStr ''at-1''), (''refreshToken'', JStr ''rt-1''),
            (''deviceId'', JStr ''dev-1'') ]"

definition sample_world :: world where
  "sample_world =
     \<lparr> idb = [(''auth_state'', sample_auth_state), (''install_id'', JStr ''inst-1'')],
       session = [(''auth_validated'', ''true''), (''auth_validated_at'', ''1700000000000'')],
       devicePrivateKey = Some (JObj []),
       location = ''./dashboard.html'',
       trace = [],
       idb_faults = [],
       net = [] \<rparr>"

definition store_error :: js_error where
  "store_error = JsError ''UnknownError'' ''Internal error opening backing store''"

subsection \<open>Observing a call\<close>

text \<open>
  The events a call added to the trace, and among them those of the retry loop: the
  calls of \<^verbatim>\<open>fetch\<close> and the backoff sleeps.
\<close>

definition added :: "world \<Rightarrow> world \<Rightarrow> event list" where
  "added w w' = drop (length (trace w)) (trace w')"

fun is_net_event :: "event \<Rightarrow> bool" where
  "is_net_event (Fetched url headers) = True"
| "is_net_event (Slept ms) = True"
| "is_net_event e = False"

fun is_fetch :: "event \<Rightarrow> bool" where
  "is_fetch (Fetched url headers) = True"
| "is_fetch e = False"

text \<open>
  What the \<open>i\<close>-th coming call of \<^verbatim>\<open>fetch\<close> settles to, and the state right after one
  call of \<^verbatim>\<open>fetch\<close>.
\<close>

definition scheduled :: "world \<Rightarrow> nat \<Rightarrow> fetch_outcome" where
  "scheduled w i = (case drop i (net w) of [] \<Rightarrow> Rejected timeout_abort | out # rest \<Rightarrow> out)"

definition fetched :: "string \<Rightarrow> jsval \<Rightarrow> world \<Rightarrow> world" where
  "fetched url headers w = (emit (Fetched url headers) w)\<lparr>net := tl (net w)\<rparr>"

text \<open>
  An outcome the loop retries: a rejection (a network failure or a timeout) whose message
  is not the one line 124 compares with.
\<close>

fun retryable :: "fetch_outcome \<Rightarrow> bool" where
  "retryable (Rejected e) = (err_message e \<noteq> redirecting_pl)"
| "retryable (Resolved r) = False"

definition failed_to_fetch :: js_error where
  "failed_to_fetch = JsError ''TypeError'' ''Failed to fetch''"

text \<open>A 401 response whose body is the JSON text \<^verbatim>\<open>null\<close>.\<close>

definition unauthorized_null :: response where
  "unauthorized_null = \<lparr>status = 401, body = Inr JNull\<rparr>"

text \<open>
  The error the coming IndexedDB request fails with, if any, and the state after a request
  that did not write.
\<close>

definition next_fault :: "world \<Rightarrow> js_error option" where
  "next_fault w = (case idb_faults w of [] \<Rightarrow> None | f # fs \<Rightarrow> f)"

definition requested :: "world \<Rightarrow> world" where
  "requested w = w\<lparr>idb_faults := tl (idb_faults w)\<rparr>"

text \<open>
  The reasons with which the invalidation handler was entered, in order; the state after
  a run of the handler that completed; the request of the refresh flow; sample responses.
\<close>

fun invalidations :: "event list \<Rightarrow> jsval list" where
  "invalidations [] = []"
| "invalidations (Invalidated reason # es) = reason # invalidations es"
| "invalidations (e # es) = invalidations es"

definition handled :: "jsval \<Rightarrow> world \<Rightarrow> world" where
  "handled reason w = navigate ''./index.html'' (clear_auth_data (emit (Invalidated reason) w))"

definition refresh_url :: string where
  "refresh_url = API_BASE_URL @ ''/auth/refresh''"

definition refresh_headers :: jsval where
  "refresh_headers = JObj [(''Content-Type'', JStr ''application/json'')]"

definition server_error :: response where
  "server_error = \<lparr>status = 500, body = Inr (JObj [(''error'', JStr ''Refresh failed'')])\<rparr>"


definition refreshed :: response where
  "refreshed =
     \<lparr>status = 200,
      body = Inr (JObj [(''access_token'', JStr ''at-2''), (''refresh_token'', JStr ''rt-2'')])\<rparr>"

section \<open>Properties\<close>

subsection \<open>The message translator\<close>

lemma translation_table_distinct: "distinct (map fst translation_table)"
  by (simp add: translation_table_def)

lemma translation_table_nonempty: "(k, v) \<in> set translation_table \<Longrightarrow> v \<noteq> []"
  unfolding translation_table_def by (simp; elim disjE; simp)

lemma translateErrorMessage_known:
  "(k, v) \<in> set translation_table \<Longrightarrow> translateErrorMessage k = Text v"
  using translation_table_nonempty [of k v]
    map_of_is_SomeI [OF translation_table_distinct, of k v]
  by (simp add: translateErrorMessage_def)

lemma translateErrorMessage_unknown:
  "error \<notin> fst ` set translation_table \<Longrightarrow> error \<notin> set object_prototype_keys
   \<Longrightarrow> translateErrorMessage error = Text error"
  by (simp add: translateErrorMessage_def map_of_eq_None_iff [THEN iffD2])

text \<open>
  Claim C7: \<^verbatim>\<open>translateErrorMessage\<close> returns the mapped string for every identifier of
  the table and its input for every other string.  The first half is
  \<open>translateErrorMessage_known\<close>.  The second holds for the strings that are not a
  member name of \<^verbatim>\<open>Object.prototype\<close> (\<open>translateErrorMessage_unknown\<close>) and fails for
  those: for the input \<^verbatim>\<open>"constructor"\<close>, which is not in the table, the property read
  finds the inherited \<^verbatim>\<open>Object\<close> function, and the result is that function, not the
  input string.
\<close>

theorem translateErrorMessage_constructor:
  "translateErrorMessage ''constructor'' = Inherited ''constructor''
   \<and> ''constructor'' \<notin> fst ` set translation_table
   \<and> translateErrorMessage ''constructor'' \<noteq> Text ''constructor''"
  by (simp add: translateErrorMessage_def translation_table_def object_prototype_keys_def)

subsection \<open>The invalidation handler\<close>

lemma emit_simps:
  "location (emit e w) = location w"
  "trace (emit e w) = trace w @ [e]"
  "idb (emit e w) = idb w"
  "session (emit e w) = session w"
  "devicePrivateKey (emit e w) = devicePrivateKey w"
  "net (emit e w) = net w"
  "idb_faults (emit e w) = idb_faults w"
  by (simp_all add: emit_def)

lemma navigate_simps:
  "location (navigate href w) = href"
  "trace (navigate href w) = trace w @ [Navigated href]"
  "idb (navigate href w) = idb w"
  "session (navigate href w) = session w"
  "devicePrivateKey (navigate href w) = devicePrivateKey w"
  "net (navigate href w) = net w"
  "idb_faults (navigate href w) = idb_faults w"
  by (simp_all add: navigate_def emit_def)

lemma pred_emit:
  "store_ok n (emit e w) = store_ok n w"
  "logged_out (emit e w) = logged_out w"
  by (simp_all add: store_ok_def logged_out_def flags_absent_def secret_cleared_def emit_simps)

lemma clear_auth_data_frame:
  "trace (clear_auth_data w) = trace w"
  "net (clear_auth_data w) = net w"
  "location (clear_auth_data w) = location w"
  by (simp_all add: clear_auth_data_def openDB_def clearStore_def idb_request_def
      split: list.splits option.splits)

lemma clear_auth_data_ok:
  "store_ok 2 w \<Longrightarrow>
     idb (clear_auth_data w) = [] \<and> flags_absent (clear_auth_data w)
     \<and> secret_cleared (clear_auth_data w)"
  by (auto simp: store_ok_def clear_auth_data_def openDB_def clearStore_def idb_request_def
      flags_absent_def secret_cleared_def numeral_2_eq_2 delete_conv'
      split: list.splits option.splits)

lemma clear_auth_data_failed:
  "\<not> store_ok 2 w \<Longrightarrow>
     idb (clear_auth_data w) = idb w \<and> session (clear_auth_data w) = session w
     \<and> devicePrivateKey (clear_auth_data w) = devicePrivateKey w"
  by (auto simp: store_ok_def clear_auth_data_def openDB_def clearStore_def idb_request_def
       numeral_2_eq_2
      split: list.splits option.splits)

lemma delete_absent: "map_of al k = None \<Longrightarrow> AList.delete k al = al"
  by (simp add: delete_id map_of_eq_None_iff)

lemma clear_auth_data_logged_out:
  "logged_out w \<Longrightarrow>
     idb (clear_auth_data w) = idb w \<and> session (clear_auth_data w) = session w
     \<and> devicePrivateKey (clear_auth_data w) = devicePrivateKey w"
  by (auto simp: logged_out_def flags_absent_def secret_cleared_def clear_auth_data_def
       openDB_def clearStore_def idb_request_def delete_absent
      split: list.splits option.splits)

lemma clearAuthAndRedirect_string:
  "clearAuthAndRedirect (JStr reason) w =
     (Inr (), navigate ''./index.html'' (clear_auth_data (emit (Invalidated (JStr reason)) w)))"
  by (simp add: clearAuthAndRedirect_def Let_def)

lemma clearAuthAndRedirect_default:
  "clearAuthAndRedirect JUndefined w = clearAuthAndRedirect (JStr session_expired_pl) w"
  by (simp add: clearAuthAndRedirect_def)

text \<open>
  Claim C1, as amended: called with a string, the handler never throws and ends with the
  navigation to \<^verbatim>\<open>./index.html\<close>.  When the database opens and the clear request
  succeeds, the store is empty afterwards, both session flags are absent and the key in
  memory is gone.  When either request fails, the rest of the \<^verbatim>\<open>try\<close> block is skipped:
  the store, the session flags and the key are as they were.
\<close>

theorem clearAuthAndRedirect_effect:
  "fst (clearAuthAndRedirect (JStr reason) w) = Inr ()
   \<and> location (snd (clearAuthAndRedirect (JStr reason) w)) = ''./index.html''
   \<and> last (trace (snd (clearAuthAndRedirect (JStr reason) w))) = Navigated ''./index.html''
   \<and> (if store_ok 2 w
       then idb (snd (clearAuthAndRedirect (JStr reason) w)) = []
          \<and> flags_absent (snd (clearAuthAndRedirect (JStr reason) w))
          \<and> secret_cleared (snd (clearAuthAndRedirect (JStr reason) w))
       else idb (snd (clearAuthAndRedirect (JStr reason) w)) = idb w
          \<and> session (snd (clearAuthAndRedirect (JStr reason) w)) = session w
          \<and> devicePrivateKey (snd (clearAuthAndRedirect (JStr reason) w)) = devicePrivateKey w)"
proof (cases "store_ok 2 w")
  case True
  then have "store_ok 2 (emit (Invalidated (JStr reason)) w)"
    by (simp add: pred_emit)
  from clear_auth_data_ok [OF this] True show ?thesis
    by (simp add: clearAuthAndRedirect_string navigate_simps clear_auth_data_frame
        flags_absent_def secret_cleared_def)
next
  case False
  then have "\<not> store_ok 2 (emit (Invalidated (JStr reason)) w)"
    by (simp add: pred_emit)
  from clear_auth_data_failed [OF this] False show ?thesis
    by (simp add: clearAuthAndRedirect_string navigate_simps emit_simps)
qed

theorem clearAuthAndRedirect_effect_witness:
  "store_ok 2 sample_world
   \<and> fst (clearAuthAndRedirect (JStr ''Session expired'') sample_world) = Inr ()
   \<and> location (snd (clearAuthAndRedirect (JStr ''Session expired'') sample_world))
       = ''./index.html''
   \<and> idb (snd (clearAuthAndRedirect (JStr ''Session expired'') sample_world)) = []
   \<and> flags_absent (snd (clearAuthAndRedirect (JStr ''Session expired'') sample_world))
   \<and> secret_cleared (snd (clearAuthAndRedirect (JStr ''Session expired'') sample_world))"
proof -
  have ok: "store_ok 2 sample_world"
    by (simp add: store_ok_def sample_world_def)
  show ?thesis
    using ok clearAuthAndRedirect_effect [of "''Session expired''" sample_world]
    by simp
qed

text \<open>
  Claim C1 as stated fails when the clear request throws: the database opens, the clear
  request fails, and afterwards the store still holds the credentials, both session flags
  are still set and the key is still in memory.  The navigation happens.
\<close>

theorem clearAuthAndRedirect_clear_throws:
  "fst (clearAuthAndRedirect (JStr ''Session expired'')
          (sample_world\<lparr>idb_faults := [None, Some store_error]\<rparr>)) = Inr ()
   \<and> location (snd (clearAuthAndRedirect (JStr ''Session expired'')
          (sample_world\<lparr>idb_faults := [None, Some store_error]\<rparr>))) = ''./index.html''
   \<and> idb (snd (clearAuthAndRedirect (JStr ''Session expired'')
          (sample_world\<lparr>idb_faults := [None, Some store_error]\<rparr>)))
       = [(''auth_state'', sample_auth_state), (''install_id'', JStr ''inst-1'')]
   \<and> map_of (session (snd (clearAuthAndRedirect (JStr ''Session expired'')
          (sample_world\<lparr>idb_faults := [None, Some store_error]\<rparr>)))) ''auth_validated''
       = Some ''true''
   \<and> map_of (session (snd (clearAuthAndRedirect (JStr ''Session expired'')
          (sample_world\<lparr>idb_faults := [None, Some store_error]\<rparr>)))) ''auth_validated_at''
       = Some ''1700000000000''
   \<and> devicePrivateKey (snd (clearAuthAndRedirect (JStr ''Session expired'')
          (sample_world\<lparr>idb_faults := [None, Some store_error]\<rparr>))) = Some (JObj [])"
  by (simp add: clearAuthAndRedirect_string navigate_simps emit_simps clear_auth_data_def
      openDB_def clearStore_def idb_request_def emit_def sample_world_def)

text \<open>
  Claim C8: the handler is idempotent.  Called with a string when the store is empty, the
  session flags are absent and no key is held in memory, it does not throw, it navigates
  to \<^verbatim>\<open>./index.html\<close>, and the store, the session storage and the key are unchanged;
  this whatever the IndexedDB requests do.
\<close>

theorem clearAuthAndRedirect_idempotent:
  assumes "logged_out w"
  shows "fst (clearAuthAndRedirect (JStr reason) w) = Inr ()
     \<and> location (snd (clearAuthAndRedirect (JStr reason) w)) = ''./index.html''
     \<and> last (trace (snd (clearAuthAndRedirect (JStr reason) w))) = Navigated ''./index.html''
     \<and> idb (snd (clearAuthAndRedirect (JStr reason) w)) = idb w
     \<and> session (snd (clearAuthAndRedirect (JStr reason) w)) = session w
     \<and> devicePrivateKey (snd (clearAuthAndRedirect (JStr reason) w)) = devicePrivateKey w
     \<and> logged_out (snd (clearAuthAndRedirect (JStr reason) w))"
proof -
  have "logged_out (emit (Invalidated (JStr reason)) w)"
    using assms by (simp add: pred_emit)
  from clear_auth_data_logged_out [OF this] show ?thesis
    using assms
    by (simp add: clearAuthAndRedirect_string navigate_simps emit_simps logged_out_def
        flags_absent_def secret_cleared_def)
qed

theorem clearAuthAndRedirect_idempotent_witness:
  "logged_out (snd (clearAuthAndRedirect (JStr ''Session expired'') sample_world))
   \<and> fst (clearAuthAndRedirect (JStr ''Session expired'')
        (snd (clearAuthAndRedirect (JStr ''Session expired'') sample_world))) = Inr ()
   \<and> location (snd (clearAuthAndRedirect (JStr ''Session expired'')
        (snd (clearAuthAndRedirect (JStr ''Session expired'') sample_world)))) = ''./index.html''
   \<and> idb (snd (clearAuthAndRedirect (JStr ''Session expired'')
        (snd (clearAuthAndRedirect (JStr ''Session expired'') sample_world)))) = []"
proof -
  have lo: "logged_out (snd (clearAuthAndRedirect (JStr ''Session expired'') sample_world))"
    by (simp add: clearAuthAndRedirect_string navigate_def emit_def clear_auth_data_def
        openDB_def clearStore_def idb_request_def sample_world_def logged_out_def
        flags_absent_def secret_cleared_def)
  have "idb (snd (clearAuthAndRedirect (JStr ''Session expired'') sample_world)) = []"
    using lo by (simp add: logged_out_def)
  then show ?thesis
    using lo clearAuthAndRedirect_idempotent [OF lo, of "''Session expired''"]
    by simp
qed

subsection \<open>The retry loop\<close>

lemma fetch_eq: "fetch url headers w = (scheduled w 0, fetched url headers w)"
  by (simp add: fetch_def scheduled_def fetched_def emit_def Let_def split: list.splits)

lemma fetched_simps:
  "trace (fetched url h w) = trace w @ [Fetched url h]"
  "net (fetched url h w) = tl (net w)"
  "idb (fetched url h w) = idb w"
  "session (fetched url h w) = session w"
  "devicePrivateKey (fetched url h w) = devicePrivateKey w"
  "location (fetched url h w) = location w"
  "idb_faults (fetched url h w) = idb_faults w"
  by (simp_all add: fetched_def emit_def)

lemma scheduled_fetched: "scheduled (fetched url h w) i = scheduled w (Suc i)"
  by (simp add: scheduled_def fetched_simps drop_Suc)

lemma sleep_simps:
  "trace (sleep ms w) = trace w @ [Slept ms]"
  "net (sleep ms w) = net w"
  "idb (sleep ms w) = idb w"
  "session (sleep ms w) = session w"
  "devicePrivateKey (sleep ms w) = devicePrivateKey w"
  "location (sleep ms w) = location w"
  "idb_faults (sleep ms w) = idb_faults w"
  by (simp_all add: sleep_def emit_def)

lemma scheduled_sleep: "scheduled (sleep ms w) i = scheduled w i"
  by (simp add: scheduled_def sleep_simps)

text \<open>The handler adds its entry event and, when it completes, the navigation.\<close>

lemma clearAuthAndRedirect_trace:
  "\<exists>es. trace (snd (clearAuthAndRedirect reason w)) = trace w @ es
        \<and> filter is_net_event es = []"
  by (simp add: clearAuthAndRedirect_def Let_def navigate_simps clear_auth_data_frame emit_simps)

lemma clearAuthAndRedirect_net:
  "net (snd (clearAuthAndRedirect reason w)) = net w"
  by (simp add: clearAuthAndRedirect_def Let_def navigate_simps clear_auth_data_frame emit_simps)

lemma attempt_try_rejected:
  "scheduled w 0 = Rejected e \<Longrightarrow> attempt_try url h w = (Inl e, fetched url h w)"
  by (simp add: attempt_try_def fetch_eq)

lemma attempt_try_passed:
  "scheduled w 0 = Resolved r \<Longrightarrow> status r \<noteq> 401 \<Longrightarrow>
     attempt_try url h w = (Inr r, fetched url h w)"
  by (simp add: attempt_try_def fetch_eq)

lemma attempt_try_trace:
  "\<exists>es. trace (snd (attempt_try url h w)) = trace w @ Fetched url h # es
        \<and> filter is_net_event es = []"
proof (cases "scheduled w 0")
  case (Rejected e)
  then show ?thesis by (simp add: attempt_try_rejected fetched_simps)
next
  case (Resolved r)
  show ?thesis
  proof (cases "status r = 401")
    case False
    with Resolved show ?thesis by (simp add: attempt_try_passed fetched_simps)
  next
    case True
    have "\<exists>es. trace (snd (clearAuthAndRedirect reason (fetched url h w)))
             = trace w @ Fetched url h # es \<and> filter is_net_event es = []" for reason
      using clearAuthAndRedirect_trace [of reason "fetched url h w"]
      by (simp add: fetched_simps)
    with True Resolved show ?thesis
      by (simp add: attempt_try_def fetch_eq fetched_simps Let_def split_beta
          split: option.splits sum.splits)
  qed
qed

lemma attempt_try_net: "net (snd (attempt_try url h w)) = tl (net w)"
  by (simp add: attempt_try_def fetch_eq fetched_simps Let_def split_beta clearAuthAndRedirect_net
      split: option.splits sum.splits fetch_outcome.splits)


lemma apiFetch_from_last:
  "apiFetch_from 2 url h w =
     (case attempt_try url h w of
        (Inr r, w1) \<Rightarrow> (Inr (Some r), w1)
      | (Inl err, w1) \<Rightarrow>
          (Inl (if err_name err = ''AbortError'' then new_Error timeout_pl else rethrow err), w1))"
  by (subst apiFetch_from.simps) (simp add: maxRetries_def split: prod.splits sum.splits)

lemma apiFetch_from_second:
  "apiFetch_from 1 url h w =
     (case attempt_try url h w of
        (Inr r, w1) \<Rightarrow> (Inr (Some r), w1)
      | (Inl err, w1) \<Rightarrow>
          if err_message err = redirecting_pl then (Inl (rethrow err), w1)
          else apiFetch_from 2 url h (sleep 1000 w1))"
  by (subst apiFetch_from.simps)
     (auto simp: maxRetries_def baseDelay_def numeral_2_eq_2 split: prod.splits sum.splits)

lemma apiFetch_from_first:
  "apiFetch_from 0 url h w =
     (case attempt_try url h w of
        (Inr r, w1) \<Rightarrow> (Inr (Some r), w1)
      | (Inl err, w1) \<Rightarrow>
          if err_message err = redirecting_pl then (Inl (rethrow err), w1)
          else apiFetch_from 1 url h (sleep 500 w1))"
  by (subst apiFetch_from.simps)
     (auto simp: maxRetries_def baseDelay_def split: prod.splits sum.splits)

lemma apiFetch_from_2_trace:
  "\<exists>es. trace (snd (apiFetch_from 2 url h w)) = trace w @ es
        \<and> filter is_net_event es = [Fetched url h]"
  using attempt_try_trace [of url h w]
  by (auto simp: apiFetch_from_last split_beta split: sum.splits)

lemma apiFetch_from_1_trace:
  "\<exists>es. trace (snd (apiFetch_from 1 url h w)) = trace w @ es
        \<and> filter is_net_event es
            \<in> {[Fetched url h], [Fetched url h, Slept 1000, Fetched url h]}"
proof -
  obtain es where es: "trace (snd (attempt_try url h w)) = trace w @ Fetched url h # es"
      "filter is_net_event es = []"
    using attempt_try_trace by blast
  obtain es' where es':
    "trace (snd (apiFetch_from 2 url h (sleep 1000 (snd (attempt_try url h w)))))
       = trace (sleep 1000 (snd (attempt_try url h w))) @ es'"
    "filter is_net_event es' = [Fetched url h]"
    using apiFetch_from_2_trace by blast
  show ?thesis
    apply (subst apiFetch_from_second)
    using es es'
    by (auto simp: split_beta sleep_simps split: sum.splits)
qed

lemma apiFetch_from_0_trace:
  "\<exists>es. trace (snd (apiFetch_from 0 url h w)) = trace w @ es
        \<and> filter is_net_event es
            \<in> {[Fetched url h], [Fetched url h, Slept 500, Fetched url h],
               [Fetched url h, Slept 500, Fetched url h, Slept 1000, Fetched url h]}"
proof -
  obtain es where es: "trace (snd (attempt_try url h w)) = trace w @ Fetched url h # es"
      "filter is_net_event es = []"
    using attempt_try_trace by blast
  obtain es' where es':
    "trace (snd (apiFetch_from 1 url h (sleep 500 (snd (attempt_try url h w)))))
       = trace (sleep 500 (snd (attempt_try url h w))) @ es'"
    "filter is_net_event es'
       \<in> {[Fetched url h], [Fetched url h, Slept 1000, Fetched url h]}"
    using apiFetch_from_1_trace by blast
  show ?thesis
    apply (subst apiFetch_from_first)
    using es es'
    by (auto simp: split_beta sleep_simps split: sum.splits)
qed

lemma apiFetch_all_rejected:
  assumes "scheduled w 0 = Rejected e1" "scheduled w 1 = Rejected e2"
    "scheduled w 2 = Rejected e3"
    "err_message e1 \<noteq> redirecting_pl" "err_message e2 \<noteq> redirecting_pl"
  shows "apiFetch url h w =
     (Inl (if err_name e3 = ''AbortError'' then new_Error timeout_pl else rethrow e3),
      fetched url h (sleep 1000 (fetched url h (sleep 500 (fetched url h w)))))"
proof -
  have 1: "scheduled (sleep 500 (fetched url h w)) 0 = Rejected e2"
    using assms(2) by (simp add: scheduled_sleep scheduled_fetched)
  have 2: "scheduled (sleep 1000 (fetched url h (sleep 500 (fetched url h w)))) 0 = Rejected e3"
    using assms(3) by (simp add: scheduled_sleep scheduled_fetched numeral_2_eq_2)
  have "apiFetch url h w = apiFetch_from 1 url h (sleep 500 (fetched url h w))"
    unfolding apiFetch_def
    by (subst apiFetch_from_first) (simp add: attempt_try_rejected [OF assms(1)] assms(4))
  also have "\<dots> = apiFetch_from 2 url h (sleep 1000 (fetched url h (sleep 500 (fetched url h w))))"
    by (subst apiFetch_from_second) (simp add: attempt_try_rejected [OF 1] assms(5))
  also have "\<dots> = (Inl (if err_name e3 = ''AbortError'' then new_Error timeout_pl else rethrow e3),
      fetched url h (sleep 1000 (fetched url h (sleep 500 (fetched url h w)))))"
    by (subst apiFetch_from_last) (simp add: attempt_try_rejected [OF 2])
  finally show ?thesis .
qed

lemma added_append: "trace w' = trace w @ es \<Longrightarrow> added w w' = es"
  by (simp add: added_def)

lemma filter_fetch_net: "filter is_fetch (filter is_net_event es) = filter is_fetch es"
proof (induction es)
  case Nil
  show ?case by simp
next
  case (Cons e es)
  then show ?case by (cases e) simp_all
qed

lemma all_less_3: "(\<forall>i<3. P i) = (P 0 \<and> P (1::nat) \<and> P 2)"
proof -
  have "i < 3 \<longleftrightarrow> i = 0 \<or> i = 1 \<or> i = 2" for i :: nat by arith
  then show ?thesis by auto
qed

lemma retryable_Rejected:
  "retryable out \<Longrightarrow> \<exists>e. out = Rejected e \<and> err_message e \<noteq> redirecting_pl"
  by (cases out) simp_all

lemma shape_len:
  assumes "filter is_net_event es
      \<in> {[Fetched url h],
         [Fetched url h, Slept 500, Fetched url h],
         [Fetched url h, Slept 500, Fetched url h, Slept 1000, Fetched url h]}"
  shows "length (filter is_fetch es) \<le> 3"
proof -
  have "length (filter is_fetch (filter is_net_event es)) \<le> 3"
    using assms by (auto simp del: filter_filter)
  then show ?thesis by (simp only: filter_fetch_net)
qed

lemma all_fail:
  assumes "\<forall>i<3. retryable (scheduled w i)"
  shows "isl (fst (apiFetch url h w))
      \<and> added w (snd (apiFetch url h w))
          = [Fetched url h, Slept 500, Fetched url h, Slept 1000, Fetched url h]"
proof -
  from assms have "retryable (scheduled w 0)" "retryable (scheduled w 1)"
      "retryable (scheduled w 2)"
    by simp_all
  then obtain e1 e2 e3 where
    r: "scheduled w 0 = Rejected e1" "scheduled w 1 = Rejected e2"
       "scheduled w 2 = Rejected e3"
       "err_message e1 \<noteq> redirecting_pl" "err_message e2 \<noteq> redirecting_pl"
    by (metis retryable_Rejected)
  have "apiFetch url h w = (Inl (if err_name e3 = ''AbortError'' then new_Error timeout_pl else rethrow e3),
      fetched url h (sleep 1000 (fetched url h (sleep 500 (fetched url h w)))))"
    by (rule apiFetch_all_rejected [OF r])
  then show ?thesis
    by (simp add: added_def fetched_simps sleep_simps)
qed
lemma sample_net_scheduled:
  "scheduled (sample_world\<lparr>net := [a, b, c]\<rparr>) 0 = a"
  "scheduled (sample_world\<lparr>net := [a, b, c]\<rparr>) 1 = b"
  "scheduled (sample_world\<lparr>net := [a, b, c]\<rparr>) (Suc 0) = b"
  "scheduled (sample_world\<lparr>net := [a, b, c]\<rparr>) 2 = c"
  by (simp_all add: scheduled_def numeral_2_eq_2)

text \<open>
  Claim C4: for every input \<^verbatim>\<open>apiFetch\<close> makes at most three attempts, and it sleeps
  500 ms before the second and 1000 ms before the third.  The calls of \<^verbatim>\<open>fetch\<close> and
  the sleeps of one call of \<^verbatim>\<open>apiFetch\<close> are, in order, one of three sequences: one
  fetch; fetch, 500, fetch; fetch, 500, fetch, 1000, fetch.  When the three coming
  fetches are all rejected (and so retried), the call raises an error after exactly the
  third.
\<close>

theorem apiFetch_attempts_and_backoff:
  "filter is_net_event (added w (snd (apiFetch url h w)))
     \<in> {[Fetched url h],
        [Fetched url h, Slept 500, Fetched url h],
        [Fetched url h, Slept 500, Fetched url h, Slept 1000, Fetched url h]}
   \<and> length (filter is_fetch (added w (snd (apiFetch url h w)))) \<le> 3
   \<and> ((\<forall>i<3. retryable (scheduled w i)) \<longrightarrow>
         isl (fst (apiFetch url h w))
         \<and> added w (snd (apiFetch url h w))
             = [Fetched url h, Slept 500, Fetched url h, Slept 1000, Fetched url h])"
proof -
  obtain es where es: "trace (snd (apiFetch url h w)) = trace w @ es"
    and shape: "filter is_net_event es
      \<in> {[Fetched url h],
         [Fetched url h, Slept 500, Fetched url h],
         [Fetched url h, Slept 500, Fetched url h, Slept 1000, Fetched url h]}"
    unfolding apiFetch_def using apiFetch_from_0_trace by blast
  have a: "added w (snd (apiFetch url h w)) = es"
    using es by (rule added_append)
  have c: "(\<forall>i<3. retryable (scheduled w i)) \<longrightarrow>
      isl (fst (apiFetch url h w))
      \<and> es = [Fetched url h, Slept 500, Fetched url h, Slept 1000, Fetched url h]"
    by (rule impI) (rule all_fail [of w url h, unfolded a])
  show ?thesis
    unfolding a by (intro conjI shape shape_len [OF shape] c)
qed

theorem apiFetch_attempts_and_backoff_witness:
  "retryable (scheduled (sample_world\<lparr>net := [Rejected failed_to_fetch,
        Rejected timeout_abort, Rejected failed_to_fetch]\<rparr>) 0)
   \<and> retryable (scheduled (sample_world\<lparr>net := [Rejected failed_to_fetch,
        Rejected timeout_abort, Rejected failed_to_fetch]\<rparr>) 1)
   \<and> retryable (scheduled (sample_world\<lparr>net := [Rejected failed_to_fetch,
        Rejected timeout_abort, Rejected failed_to_fetch]\<rparr>) 2)
   \<and> isl (fst (apiFetch (API_BASE_URL @ ''/status'') JUndefined
        (sample_world\<lparr>net := [Rejected failed_to_fetch, Rejected timeout_abort,
           Rejected failed_to_fetch]\<rparr>)))
   \<and> added (sample_world\<lparr>net := [Rejected failed_to_fetch, Rejected timeout_abort,
           Rejected failed_to_fetch]\<rparr>)
        (snd (apiFetch (API_BASE_URL @ ''/status'') JUndefined
          (sample_world\<lparr>net := [Rejected failed_to_fetch, Rejected timeout_abort,
             Rejected failed_to_fetch]\<rparr>)))
      = [Fetched (API_BASE_URL @ ''/status'') JUndefined, Slept 500,
         Fetched (API_BASE_URL @ ''/status'') JUndefined, Slept 1000,
         Fetched (API_BASE_URL @ ''/status'') JUndefined]"
proof -
  have h: "retryable (scheduled (sample_world\<lparr>net := [Rejected failed_to_fetch,
        Rejected timeout_abort, Rejected failed_to_fetch]\<rparr>) 0)
   \<and> retryable (scheduled (sample_world\<lparr>net := [Rejected failed_to_fetch,
        Rejected timeout_abort, Rejected failed_to_fetch]\<rparr>) 1)
   \<and> retryable (scheduled (sample_world\<lparr>net := [Rejected failed_to_fetch,
        Rejected timeout_abort, Rejected failed_to_fetch]\<rparr>) 2)"
    by (simp add: sample_net_scheduled timeout_abort_def failed_to_fetch_def
        redirecting_pl_def)
  then have h': "\<forall>i<3. retryable (scheduled (sample_world\<lparr>net := [Rejected failed_to_fetch,
        Rejected timeout_abort, Rejected failed_to_fetch]\<rparr>) i)"
    by (simp only: all_less_3)
  from apiFetch_attempts_and_backoff [THEN conjunct2, THEN conjunct2, THEN mp, OF h'] h
  show ?thesis by (simp only: conj_assoc simp_thms)
qed

text \<open>
  Claim C5, as amended: when all three attempts are rejected, \<^verbatim>\<open>apiFetch\<close> raises, for
  the last rejection \<open>e3\<close>: the localized timeout error when \<open>e3\<close> is an
  \<^verbatim>\<open>AbortError\<close>; otherwise the localized network-failure error when the message of
  \<open>e3\<close> contains \<^verbatim>\<open>fetch\<close>; otherwise \<open>e3\<close> itself.
\<close>

theorem apiFetch_exhausted_error:
  assumes "scheduled w 0 = Rejected e1" "scheduled w 1 = Rejected e2"
    "scheduled w 2 = Rejected e3"
    "err_message e1 \<noteq> redirecting_pl" "err_message e2 \<noteq> redirecting_pl"
  shows "fst (apiFetch url h w) =
     Inl (if err_name e3 = ''AbortError'' then new_Error timeout_pl
          else if js_includes (err_message e3) ''fetch'' then new_Error connect_failed_pl
          else e3)"
  by (simp add: apiFetch_all_rejected [OF assms] rethrow_def)

theorem apiFetch_exhausted_error_witness:
  "fst (apiFetch (API_BASE_URL @ ''/status'') JUndefined
          (sample_world\<lparr>net := [Rejected timeout_abort, Rejected timeout_abort,
                                  Rejected failed_to_fetch]\<rparr>))
     = Inl (new_Error connect_failed_pl)"
  using apiFetch_exhausted_error [of
      "sample_world\<lparr>net := [Rejected timeout_abort, Rejected timeout_abort,
                                  Rejected failed_to_fetch]\<rparr>"
      timeout_abort timeout_abort failed_to_fetch "API_BASE_URL @ ''/status''" JUndefined]
  by (simp add: sample_net_scheduled timeout_abort_def failed_to_fetch_def redirecting_pl_def)

text \<open>
  Claim C5 as stated fails for a timeout on the last attempt: the message of the abort
  error does not contain \<^verbatim>\<open>fetch\<close>, yet the error raised is not the abort error but a
  new error with the timeout message of lines 116--118.
\<close>

theorem apiFetch_timeout_replaced:
  "fst (apiFetch (API_BASE_URL @ ''/status'') JUndefined
          (sample_world\<lparr>net := [Rejected timeout_abort, Rejected timeout_abort,
                                  Rejected timeout_abort]\<rparr>))
     = Inl (new_Error timeout_pl)
   \<and> \<not> js_includes (err_message timeout_abort) ''fetch''
   \<and> new_Error timeout_pl \<noteq> timeout_abort
   \<and> new_Error timeout_pl \<noteq> new_Error connect_failed_pl"
proof -
  have m: "err_message timeout_abort \<noteq> redirecting_pl"
    by (simp add: timeout_abort_def redirecting_pl_def)
  show ?thesis
    by (simp add: apiFetch_all_rejected
          [OF sample_net_scheduled(1) sample_net_scheduled(2) sample_net_scheduled(4) m m])
       (simp add: timeout_abort_def new_Error_def timeout_pl_def connect_failed_pl_def)
qed

lemma clearAuthAndRedirect_completes:
  "has_includes reason \<Longrightarrow>
   clearAuthAndRedirect reason w =
     (Inr (), navigate ''./index.html'' (clear_auth_data (emit (Invalidated reason) w)))"
  by (cases reason) (simp_all add: clearAuthAndRedirect_def Let_def)

lemma clearAuthAndRedirect_throws:
  "truthy reason \<Longrightarrow> \<not> has_includes reason \<Longrightarrow>
   clearAuthAndRedirect reason w =
     (Inl (not_a_function ''reason.includes''), emit (Invalidated reason) w)"
  by (cases reason) (simp_all add: clearAuthAndRedirect_def Let_def)



lemma attempt_try_401_unreadable:
  assumes "scheduled w 0 = Resolved r" "status r = 401"
    "js_member (json_or r unauthorized_pl) ''error'' = None"
  shows "attempt_try url h w =
     (Inl (cannot_read (json_or r unauthorized_pl) ''error''), fetched url h w)"
  using assms by (simp add: attempt_try_def fetch_eq Let_def)


lemma apiFetch_three_failures:
  assumes "attempt_try url h w = (Inl e1, w1)" "err_message e1 \<noteq> redirecting_pl"
    "attempt_try url h (sleep 500 w1) = (Inl e2, w2)" "err_message e2 \<noteq> redirecting_pl"
    "attempt_try url h (sleep 1000 w2) = (Inl e3, w3)"
  shows "apiFetch url h w =
     (Inl (if err_name e3 = ''AbortError'' then new_Error timeout_pl else rethrow e3), w3)"
proof -
  have "apiFetch url h w = apiFetch_from 1 url h (sleep 500 w1)"
    unfolding apiFetch_def by (subst apiFetch_from_first) (simp add: assms(1,2))
  also have "\<dots> = apiFetch_from 2 url h (sleep 1000 w2)"
    by (subst apiFetch_from_second) (simp add: assms(3,4))
  also have "\<dots> =
     (Inl (if err_name e3 = ''AbortError'' then new_Error timeout_pl else rethrow e3), w3)"
    by (subst apiFetch_from_last) (simp add: assms(5))
  finally show ?thesis .
qed

lemma sample_net_fetched:
  "fetched url h (sample_world\<lparr>net := out # rest\<rparr>)
     = sample_world\<lparr>net := rest, trace := trace sample_world @ [Fetched url h]\<rparr>"
  by (simp add: fetched_def emit_def sample_world_def)

text \<open>
  Claim C2: a 401 received by any attempt triggers exactly one invalidation, fails the
  call with the redirect error and is never retried.  For a 401 whose body is not JSON,
  or is JSON whose \<^verbatim>\<open>error\<close> member is absent, falsy, a string or an array, this holds at
  every attempt (\<open>apiFetch_from_401\<close>).  It fails for a 401 whose body is the JSON text
  \<^verbatim>\<open>null\<close>: reading \<^verbatim>\<open>error.error\<close> throws a TypeError inside the \<^verbatim>\<open>try\<close> block, which
  the \<^verbatim>\<open>catch\<close> block treats as any other failure.  Three such responses give three
  fetches and two sleeps, no invalidation, no navigation, and the TypeError in the end.
\<close>

theorem apiFetch_401_null_body:
  "fst (apiFetch (API_BASE_URL @ ''/status'') JUndefined
          (sample_world\<lparr>net := [Resolved unauthorized_null, Resolved unauthorized_null,
                                  Resolved unauthorized_null]\<rparr>))
     = Inl (cannot_read JNull ''error'')
   \<and> trace (snd (apiFetch (API_BASE_URL @ ''/status'') JUndefined
          (sample_world\<lparr>net := [Resolved unauthorized_null, Resolved unauthorized_null,
                                  Resolved unauthorized_null]\<rparr>)))
     = [Fetched (API_BASE_URL @ ''/status'') JUndefined, Slept 500,
        Fetched (API_BASE_URL @ ''/status'') JUndefined, Slept 1000,
        Fetched (API_BASE_URL @ ''/status'') JUndefined]
   \<and> idb (snd (apiFetch (API_BASE_URL @ ''/status'') JUndefined
          (sample_world\<lparr>net := [Resolved unauthorized_null, Resolved unauthorized_null,
                                  Resolved unauthorized_null]\<rparr>))) = idb sample_world
   \<and> location (snd (apiFetch (API_BASE_URL @ ''/status'') JUndefined
          (sample_world\<lparr>net := [Resolved unauthorized_null, Resolved unauthorized_null,
                                  Resolved unauthorized_null]\<rparr>))) = ''./dashboard.html''"
proof -
  let ?u = "API_BASE_URL @ ''/status''"
  let ?w = "sample_world\<lparr>net := [Resolved unauthorized_null, Resolved unauthorized_null,
                                  Resolved unauthorized_null]\<rparr>"
  have null: "js_member (json_or unauthorized_null unauthorized_pl) ''error'' = None"
       "json_or unauthorized_null unauthorized_pl = JNull"
       "status unauthorized_null = 401"
    by (simp_all add: json_or_def unauthorized_null_def)
  have step: "scheduled v 0 = Resolved unauthorized_null \<Longrightarrow>
      attempt_try ?u JUndefined v = (Inl (cannot_read JNull ''error''), fetched ?u JUndefined v)" for v
    using attempt_try_401_unreadable [of v unauthorized_null ?u JUndefined] null by simp
  have m: "err_message (cannot_read JNull ''error'') \<noteq> redirecting_pl"
      "err_name (cannot_read JNull ''error'') \<noteq> ''AbortError''"
      "rethrow (cannot_read JNull ''error'') = cannot_read JNull ''error''"
    by (simp_all add: cannot_read_def redirecting_pl_def rethrow_def)
  have 1: "attempt_try ?u JUndefined ?w = (Inl (cannot_read JNull ''error''), fetched ?u JUndefined ?w)"
    by (rule step) (simp add: scheduled_def)
  have 2: "attempt_try ?u JUndefined (sleep 500 (fetched ?u JUndefined ?w))
      = (Inl (cannot_read JNull ''error''), fetched ?u JUndefined (sleep 500 (fetched ?u JUndefined ?w)))"
    by (rule step) (simp add: scheduled_def sleep_simps fetched_simps)
  have 3: "attempt_try ?u JUndefined (sleep 1000 (fetched ?u JUndefined (sleep 500 (fetched ?u JUndefined ?w))))
      = (Inl (cannot_read JNull ''error''),
         fetched ?u JUndefined (sleep 1000 (fetched ?u JUndefined (sleep 500 (fetched ?u JUndefined ?w)))))"
    by (rule step) (simp add: scheduled_def sleep_simps fetched_simps)
  show ?thesis
    by (simp add: apiFetch_three_failures [OF 1 m(1) 2 m(1) 3] m fetched_simps sleep_simps)
       (simp add: sample_world_def)
qed

subsection \<open>Authenticated requests\<close>

lemma idb_request_eq: "idb_request w = (next_fault w, requested w)"
  by (simp add: idb_request_def next_fault_def requested_def split: list.splits)

lemma requested_simps:
  "trace (requested w) = trace w"
  "net (requested w) = net w"
  "idb (requested w) = idb w"
  "session (requested w) = session w"
  "devicePrivateKey (requested w) = devicePrivateKey w"
  "location (requested w) = location w"
  "idb_faults (requested w) = tl (idb_faults w)"
  "stored (requested w) key = stored w key"
  by (simp_all add: requested_def stored_def)

lemma store_ok_Suc:
  "store_ok (Suc n) w \<longleftrightarrow> next_fault w = None \<and> store_ok n (requested w)"
  by (cases "idb_faults w") (simp_all add: store_ok_def next_fault_def requested_def)

lemma openDB_eq:
  "openDB w = (case next_fault w of Some e \<Rightarrow> Inl e | None \<Rightarrow> Inr (), requested w)"
  by (simp add: openDB_def idb_request_eq split: option.splits)

lemma getFromDB_eq:
  "getFromDB key w =
     (case next_fault w of Some e \<Rightarrow> Inl e | None \<Rightarrow> Inr (stored w key), requested w)"
  by (simp add: getFromDB_def idb_request_eq requested_simps split: option.splits)

lemma getAuthHeaders_refused:
  assumes "\<not> truthy (stored w ''auth_state'')
           \<or> \<not> truthy (js_field (stored w ''auth_state'') ''accessToken'')"
  shows "isl (fst (getAuthHeaders w))"
    and "trace (snd (getAuthHeaders w)) = trace w"
    and "net (snd (getAuthHeaders w)) = net w"
    and "store_ok 2 w \<Longrightarrow>
           getAuthHeaders w = (Inl (new_Error not_authenticated_pl), requested (requested w))"
  using assms
  by (auto simp: getAuthHeaders_def openDB_eq getFromDB_eq requested_simps numeral_2_eq_2
      store_ok_Suc split: option.splits)

lemma getAuthHeaders_store_failure:
  "next_fault w = Some e \<Longrightarrow> getAuthHeaders w = (Inl e, requested w)"
  "next_fault w = None \<Longrightarrow> next_fault (requested w) = Some e \<Longrightarrow>
     getAuthHeaders w = (Inl e, requested (requested w))"
  by (simp_all add: getAuthHeaders_def openDB_eq getFromDB_eq)

text \<open>
  Claim C6, as amended: when the stored \<^verbatim>\<open>auth_state\<close> is absent or has no truthy access
  token, \<^verbatim>\<open>authenticatedRequest\<close> fails and \<^verbatim>\<open>fetch\<close> is never called: no event is added
  and the network schedule is untouched.  The error is the one of line 158 when the two
  store requests before the test (open, get) succeed; when the open request or the get
  request fails, the call fails with the error of that request, which lines 154--155 do
  not catch.
\<close>

theorem authenticatedRequest_unauthenticated:
  assumes "\<not> truthy (stored w ''auth_state'')
           \<or> \<not> truthy (js_field (stored w ''auth_state'') ''accessToken'')"
  shows "isl (fst (authenticatedRequest endpoint option_headers w))
     \<and> added w (snd (authenticatedRequest endpoint option_headers w)) = []
     \<and> net (snd (authenticatedRequest endpoint option_headers w)) = net w
     \<and> (store_ok 2 w \<longrightarrow>
          fst (authenticatedRequest endpoint option_headers w)
            = Inl (new_Error not_authenticated_pl))
     \<and> (next_fault w = Some e \<longrightarrow>
          fst (authenticatedRequest endpoint option_headers w) = Inl e)
     \<and> (next_fault w = None \<and> next_fault (requested w) = Some e \<longrightarrow>
          fst (authenticatedRequest endpoint option_headers w) = Inl e)"
proof -
  from getAuthHeaders_refused(1) [OF assms] obtain e' where
    e: "fst (getAuthHeaders w) = Inl e'"
    by (cases "fst (getAuthHeaders w)") simp_all
  then have r: "authenticatedRequest endpoint option_headers w = (Inl e', snd (getAuthHeaders w))"
    by (simp add: authenticatedRequest_def split_beta)
  have 1: "store_ok 2 w \<longrightarrow> e' = new_Error not_authenticated_pl"
    using getAuthHeaders_refused(4) [OF assms] e by auto
  have 2: "next_fault w = Some e \<longrightarrow> e' = e"
    using getAuthHeaders_store_failure(1) [of w e] e by auto
  have 3: "next_fault w = None \<and> next_fault (requested w) = Some e \<longrightarrow> e' = e"
    using getAuthHeaders_store_failure(2) [of w e] e by auto
  show ?thesis
    using getAuthHeaders_refused(2,3) [OF assms] 1 2 3
    by (simp add: r added_def)
qed

theorem authenticatedRequest_unauthenticated_witness:
  "\<not> truthy (stored (sample_world\<lparr>idb := [(''install_id'', JStr ''inst-1'')]\<rparr>) ''auth_state'')
   \<and> store_ok 2 (sample_world\<lparr>idb := [(''install_id'', JStr ''inst-1'')]\<rparr>)
   \<and> fst (authenticatedRequest ''/profile'' []
          (sample_world\<lparr>idb := [(''install_id'', JStr ''inst-1'')]\<rparr>))
       = Inl (new_Error not_authenticated_pl)
   \<and> added (sample_world\<lparr>idb := [(''install_id'', JStr ''inst-1'')]\<rparr>)
        (snd (authenticatedRequest ''/profile'' []
          (sample_world\<lparr>idb := [(''install_id'', JStr ''inst-1'')]\<rparr>))) = []"
proof -
  have a: "\<not> truthy (stored (sample_world\<lparr>idb := [(''install_id'', JStr ''inst-1'')]\<rparr>) ''auth_state'')"
    by (simp add: stored_def)
  have b: "store_ok 2 (sample_world\<lparr>idb := [(''install_id'', JStr ''inst-1'')]\<rparr>)"
    by (simp add: store_ok_def sample_world_def)
  from authenticatedRequest_unauthenticated [OF disjI1 [OF a], of "''/profile''" "[]"] a b
  show ?thesis by simp
qed

text \<open>
  Claim C6 as stated fails when the store cannot be opened: with no \<^verbatim>\<open>auth_state\<close>
  stored and a failing \<^verbatim>\<open>indexedDB.open\<close>, the call fails with the store's error, not
  with the error of line 158.
\<close>

theorem authenticatedRequest_store_error:
  "\<not> truthy (stored (sample_world\<lparr>idb := [(''install_id'', JStr ''inst-1'')],
                                   idb_faults := [Some store_error]\<rparr>) ''auth_state'')
   \<and> fst (authenticatedRequest ''/profile'' []
          (sample_world\<lparr>idb := [(''install_id'', JStr ''inst-1'')],
                         idb_faults := [Some store_error]\<rparr>))
       = Inl store_error
   \<and> store_error \<noteq> new_Error not_authenticated_pl"
proof -
  let ?w = "sample_world\<lparr>idb := [(''install_id'', JStr ''inst-1'')],
                         idb_faults := [Some store_error]\<rparr>"
  have f: "next_fault ?w = Some store_error"
    by (simp add: next_fault_def)
  have a: "\<not> truthy (stored ?w ''auth_state'')"
    by (simp add: stored_def)
  have d: "store_error \<noteq> new_Error not_authenticated_pl"
    by (simp add: store_error_def new_Error_def)
  show ?thesis
    using a d by (simp add: authenticatedRequest_def getAuthHeaders_store_failure(1) [OF f])
qed

lemma apiFetch_first_event:
  "\<exists>es. trace (snd (apiFetch url h w)) = trace w @ Fetched url h # es"
proof -
  obtain es where es: "trace (snd (attempt_try url h w)) = trace w @ Fetched url h # es"
    using attempt_try_trace by blast
  obtain es' where es':
    "trace (snd (apiFetch_from 1 url h (sleep 500 (snd (attempt_try url h w)))))
       = trace (sleep 500 (snd (attempt_try url h w))) @ es'"
    using apiFetch_from_1_trace by blast
  show ?thesis
    unfolding apiFetch_def
    apply (subst apiFetch_from_first)
    using es es'
    by (auto simp: split_beta sleep_simps split: sum.splits)
qed

lemma map_of_spread:
  "map_of b k = None \<Longrightarrow> map_of (spread a b) k = map_of a k"
  unfolding spread_def
proof (induction b arbitrary: a)
  case Nil
  show ?case by simp
next
  case (Cons p b)
  obtain k' v where p: "p = (k', v)" by (cases p)
  with Cons.prems have "k' \<noteq> k" "map_of b k = None"
    by (auto split: if_splits)
  with Cons.IH [of "AList.update k' v a"] p show ?case
    by (simp add: update_conv')
qed

lemma getAuthHeaders_granted:
  assumes "store_ok 3 w" "truthy (stored w ''auth_state'')"
    "truthy (js_field (stored w ''auth_state'') ''accessToken'')"
  shows "getAuthHeaders w =
     (Inr [ (''Authorization'',
              JStr (''Bearer '' @ js_to_string (js_field (stored w ''auth_state'') ''accessToken''))),
            (''X-PWA-Install-ID'', stored w ''install_id''),
            (''Content-Type'', JStr ''application/json'') ],
      requested (requested (requested w)))"
  using assms
  by (simp add: getAuthHeaders_def openDB_eq getFromDB_eq requested_simps numeral_3_eq_3
      store_ok_Suc split: option.splits)

text \<open>
  Claim C10: the install identifier is not validated.  When the store requests succeed,
  a truthy access token is stored and no \<^verbatim>\<open>install_id\<close> record exists,
  \<^verbatim>\<open>getAuthHeaders\<close> returns headers whose \<^verbatim>\<open>X-PWA-Install-ID\<close> is \<^verbatim>\<open>undefined\<close>, and
  \<^verbatim>\<open>authenticatedRequest\<close> goes on to call \<^verbatim>\<open>fetch\<close> with these headers merged with
  the caller's; unless the caller sets the header, it is present with the value
  \<^verbatim>\<open>undefined\<close>.
\<close>

theorem getAuthHeaders_missing_install_id:
  assumes "store_ok 3 w" "truthy (stored w ''auth_state'')"
    "truthy (js_field (stored w ''auth_state'') ''accessToken'')"
    "map_of (idb w) ''install_id'' = None"
  shows "fst (getAuthHeaders w) =
       Inr [ (''Authorization'',
               JStr (''Bearer '' @ js_to_string (js_field (stored w ''auth_state'') ''accessToken''))),
             (''X-PWA-Install-ID'', JUndefined),
             (''Content-Type'', JStr ''application/json'') ]
     \<and> take 1 (added w (snd (authenticatedRequest endpoint option_headers w))) =
         [Fetched (API_BASE_URL @ endpoint)
            (JObj (spread
               [ (''Authorization'',
                   JStr (''Bearer '' @ js_to_string (js_field (stored w ''auth_state'') ''accessToken''))),
                 (''X-PWA-Install-ID'', JUndefined),
                 (''Content-Type'', JStr ''application/json'') ] option_headers))]
     \<and> (map_of option_headers ''X-PWA-Install-ID'' = None \<longrightarrow>
          map_of (spread
               [ (''Authorization'',
                   JStr (''Bearer '' @ js_to_string (js_field (stored w ''auth_state'') ''accessToken''))),
                 (''X-PWA-Install-ID'', JUndefined),
                 (''Content-Type'', JStr ''application/json'') ] option_headers)
            ''X-PWA-Install-ID'' = Some JUndefined)"
proof -
  let ?hs = "[ (''Authorization'',
                   JStr (''Bearer '' @ js_to_string (js_field (stored w ''auth_state'') ''accessToken''))),
                 (''X-PWA-Install-ID'', JUndefined),
                 (''Content-Type'', JStr ''application/json'') ]"
  have u: "stored w ''install_id'' = JUndefined"
    using assms(4) by (simp add: stored_def)
  have g: "getAuthHeaders w = (Inr ?hs, requested (requested (requested w)))"
    using getAuthHeaders_granted [OF assms(1-3)] u by simp
  obtain es where
    "trace (snd (apiFetch (API_BASE_URL @ endpoint) (JObj (spread ?hs option_headers))
       (requested (requested (requested w)))))
     = trace (requested (requested (requested w)))
       @ Fetched (API_BASE_URL @ endpoint) (JObj (spread ?hs option_headers)) # es"
    using apiFetch_first_event by blast
  then have t: "take 1 (added w (snd (authenticatedRequest endpoint option_headers w)))
      = [Fetched (API_BASE_URL @ endpoint) (JObj (spread ?hs option_headers))]"
    by (simp add: authenticatedRequest_def g added_def requested_simps)
  have m: "map_of option_headers ''X-PWA-Install-ID'' = None \<longrightarrow>
      map_of (spread ?hs option_headers) ''X-PWA-Install-ID'' = Some JUndefined"
    by (simp add: map_of_spread)
  show ?thesis
    using g t m by simp
qed

theorem getAuthHeaders_missing_install_id_witness:
  "store_ok 3 (sample_world\<lparr>idb := [(''auth_state'', sample_auth_state)]\<rparr>)
   \<and> truthy (stored (sample_world\<lparr>idb := [(''auth_state'', sample_auth_state)]\<rparr>)
        ''auth_state'')
   \<and> truthy (js_field (stored (sample_world\<lparr>idb := [(''auth_state'', sample_auth_state)]\<rparr>)
        ''auth_state'') ''accessToken'')
   \<and> map_of (idb (sample_world\<lparr>idb := [(''auth_state'', sample_auth_state)]\<rparr>))
        ''install_id'' = None
   \<and> fst (getAuthHeaders (sample_world\<lparr>idb := [(''auth_state'', sample_auth_state)]\<rparr>))
       = Inr [ (''Authorization'', JStr ''Bearer at-1''),
               (''X-PWA-Install-ID'', JUndefined),
               (''Content-Type'', JStr ''application/json'') ]
   \<and> take 1 (added (sample_world\<lparr>idb := [(''auth_state'', sample_auth_state)]\<rparr>)
        (snd (authenticatedRequest ''/profile'' []
           (sample_world\<lparr>idb := [(''auth_state'', sample_auth_state)]\<rparr>))))
       = [Fetched (API_BASE_URL @ ''/profile'')
            (JObj [ (''Authorization'', JStr ''Bearer at-1''),
                    (''X-PWA-Install-ID'', JUndefined),
                    (''Content-Type'', JStr ''application/json'') ])]"
proof -
  let ?w = "sample_world\<lparr>idb := [(''auth_state'', sample_auth_state)]\<rparr>"
  have a: "store_ok 3 ?w"
    by (simp add: store_ok_def sample_world_def)
  have s: "stored ?w ''auth_state'' = sample_auth_state"
    by (simp add: stored_def)
  have b: "truthy (stored ?w ''auth_state'')"
    unfolding s by (simp add: sample_auth_state_def)
  have t: "js_field (stored ?w ''auth_state'') ''accessToken'' = JStr ''at-1''"
    unfolding s by (simp add: sample_auth_state_def js_field_def)
  have c: "truthy (js_field (stored ?w ''auth_state'') ''accessToken'')"
    by (simp add: t)
  have d: "map_of (idb ?w) ''install_id'' = None"
    by simp
  from getAuthHeaders_missing_install_id [OF a b c d, of "''/profile''" "[]"]
  show ?thesis
    using a b c d by (simp add: t spread_def)
qed

subsection \<open>Token refresh\<close>


lemma handled_simps:
  "trace (handled reason w) = trace w @ [Invalidated reason, Navigated ''./index.html'']"
  "location (handled reason w) = ''./index.html''"
  "net (handled reason w) = net w"
  by (simp_all add: handled_def navigate_simps clear_auth_data_frame emit_simps)

lemma clear_auth_data_idb:
  "idb (clear_auth_data w) = [] \<or> idb (clear_auth_data w) = idb w"
  by (simp add: clear_auth_data_def openDB_def clearStore_def idb_request_def
      split: list.splits option.splits)

lemma handled_idb:
  "idb (handled reason w) = [] \<or> idb (handled reason w) = idb w"
  using clear_auth_data_idb [of "emit (Invalidated reason) w"]
  by (simp add: handled_def navigate_simps emit_simps)

lemma handled_idb_ok: "store_ok 2 w \<Longrightarrow> idb (handled reason w) = []"
  using clear_auth_data_ok [of "emit (Invalidated reason) w"]
  by (simp add: handled_def navigate_simps pred_emit)

lemma handled_idb_empty: "idb w = [] \<Longrightarrow> idb (handled reason w) = []"
  using handled_idb [of reason w] by auto

lemma clearAuthAndRedirect_handled:
  "has_includes reason \<Longrightarrow> clearAuthAndRedirect reason w = (Inr (), handled reason w)"
  by (simp add: clearAuthAndRedirect_completes handled_def)

lemma apiFetch_passed:
  "scheduled w 0 = Resolved r \<Longrightarrow> status r \<noteq> 401 \<Longrightarrow>
     apiFetch url h w = (Inr (Some r), fetched url h w)"
  unfolding apiFetch_def
  by (subst apiFetch_from_first) (simp add: attempt_try_passed)

lemma truthy_or_else: "truthy b \<Longrightarrow> truthy (or_else a b)"
  by (simp add: or_else_def)

lemma refresh_failed_truthy: "truthy (JStr refresh_failed_pl)"
  by (simp add: refresh_failed_pl_def)

lemma refresh_try_not_ok:
  assumes "scheduled w 0 = Resolved r" "status r \<noteq> 401" "\<not> ok r"
  shows "refresh_try a w =
    (case js_member (json_or r refresh_failed_pl) ''error'' of
       None \<Rightarrow>
         (Inl (cannot_read (json_or r refresh_failed_pl) ''error''),
          fetched refresh_url refresh_headers w)
     | Some x \<Rightarrow>
         if has_includes (or_else x (JStr refresh_failed_pl))
         then (Inl (new_Error refresh_failed_pl),
               handled (or_else x (JStr refresh_failed_pl)) (fetched refresh_url refresh_headers w))
         else (Inl (not_a_function ''reason.includes''),
               emit (Invalidated (or_else x (JStr refresh_failed_pl)))
                 (fetched refresh_url refresh_headers w)))"
  using assms(3) truthy_or_else [OF refresh_failed_truthy]
  by (simp add: refresh_try_def apiFetch_passed [OF assms(1,2)] Let_def
      clearAuthAndRedirect_handled clearAuthAndRedirect_throws
      refresh_url_def refresh_headers_def split: option.splits)

lemma refresh_try_ok:
  assumes "scheduled w 0 = Resolved r" "ok r" "body r = Inr data"
    "js_member data ''access_token'' = Some access" "js_member data ''refresh_token'' = Some refresh"
    "next_fault w = None"
  shows "refresh_try a w =
    (Inr access,
     (requested (fetched refresh_url refresh_headers w))
       \<lparr>idb := AList.update ''auth_state''
                (JObj (AList.update ''refreshToken'' refresh
                         (AList.update ''accessToken'' access (own_props a))))
                (idb w)\<rparr>)"
proof -
  have "status r \<noteq> 401" using assms(2) by (simp add: ok_def)
  from apiFetch_passed [OF assms(1) this] assms(2-6) show ?thesis
    by (simp add: refresh_try_def setInDB_def idb_request_eq next_fault_def fetched_simps
        requested_simps refresh_url_def refresh_headers_def)
qed

lemma refreshAccessToken_start:
  assumes "store_ok 2 w" "truthy (stored w ''auth_state'')"
    "truthy (js_field (stored w ''auth_state'') ''refreshToken'')"
  shows "refreshAccessToken w =
    (case refresh_try (stored w ''auth_state'') (requested (requested w)) of
       (Inr token, w3) \<Rightarrow> (Inr token, w3)
     | (Inl err, w3) \<Rightarrow> (Inl err, handled (JStr refresh_failed_pl) w3))"
  using assms
  by (simp add: refreshAccessToken_def openDB_eq getFromDB_eq requested_simps numeral_2_eq_2
      store_ok_Suc clearAuthAndRedirect_handled split: prod.splits sum.splits)

lemma scheduled_requested: "scheduled (requested w) i = scheduled w i"
  by (simp add: scheduled_def requested_simps)

lemma store_ok_0: "store_ok 0 w"
  by (simp add: store_ok_def)

lemma refreshAccessToken_not_ok:
  assumes "store_ok 2 w" "truthy (stored w ''auth_state'')"
    "truthy (js_field (stored w ''auth_state'') ''refreshToken'')"
    "scheduled w 0 = Resolved r" "status r \<noteq> 401" "\<not> ok r"
  shows "refreshAccessToken w =
    (case js_member (json_or r refresh_failed_pl) ''error'' of
       None \<Rightarrow>
         (Inl (cannot_read (json_or r refresh_failed_pl) ''error''),
          handled (JStr refresh_failed_pl)
            (fetched refresh_url refresh_headers (requested (requested w))))
     | Some x \<Rightarrow>
         if has_includes (or_else x (JStr refresh_failed_pl))
         then (Inl (new_Error refresh_failed_pl),
               handled (JStr refresh_failed_pl)
                 (handled (or_else x (JStr refresh_failed_pl))
                    (fetched refresh_url refresh_headers (requested (requested w)))))
         else (Inl (not_a_function ''reason.includes''),
               handled (JStr refresh_failed_pl)
                 (emit (Invalidated (or_else x (JStr refresh_failed_pl)))
                    (fetched refresh_url refresh_headers (requested (requested w))))))"
proof -
  have s: "scheduled (requested (requested w)) 0 = Resolved r"
    using assms(4) by (simp add: scheduled_requested)
  show ?thesis
    by (simp add: refreshAccessToken_start [OF assms(1-3)]
        refresh_try_not_ok [OF s assms(5,6)] split: option.splits)
qed


lemma refreshAccessToken_not_ok_state:
  assumes "store_ok 2 w" "truthy (stored w ''auth_state'')"
    "truthy (js_field (stored w ''auth_state'') ''refreshToken'')"
    "scheduled w 0 = Resolved r" "status r \<noteq> 401" "\<not> ok r"
  shows "isl (fst (refreshAccessToken w))"
    and "JStr refresh_failed_pl \<in> set (invalidations (added w (snd (refreshAccessToken w))))"
    and "location (snd (refreshAccessToken w)) = ''./index.html''"
    and "idb (snd (refreshAccessToken w)) = [] \<or> idb (snd (refreshAccessToken w)) = idb w"
    and "store_ok 4 w \<Longrightarrow> idb (snd (refreshAccessToken w)) = []"
proof -
  let ?W = "fetched refresh_url refresh_headers (requested (requested w))"
  note eq = refreshAccessToken_not_ok [OF assms]
  show "isl (fst (refreshAccessToken w))"
    by (simp add: eq split: option.splits)
  show "JStr refresh_failed_pl \<in> set (invalidations (added w (snd (refreshAccessToken w))))"
    by (simp add: eq added_def handled_simps fetched_simps requested_simps emit_simps
        split: option.splits)
  show "location (snd (refreshAccessToken w)) = ''./index.html''"
    by (simp add: eq handled_simps split: option.splits)
  have W: "idb ?W = idb w" by (simp add: fetched_simps requested_simps)
  have two: "idb (handled b (handled c ?W)) = [] \<or> idb (handled b (handled c ?W)) = idb w" for b c
    using handled_idb [of b "handled c ?W"] handled_idb [of c ?W] W by auto
  have one: "idb (handled b ?W) = [] \<or> idb (handled b ?W) = idb w" for b
    using handled_idb [of b ?W] W by auto
  have thr: "idb (handled b (emit e ?W)) = [] \<or> idb (handled b (emit e ?W)) = idb w" for b e
    using handled_idb [of b "emit e ?W"] W by (auto simp: emit_simps)
  show "idb (snd (refreshAccessToken w)) = [] \<or> idb (snd (refreshAccessToken w)) = idb w"
    using one two thr by (simp add: eq split: option.splits)
  show "idb (snd (refreshAccessToken w)) = []" if "store_ok 4 w"
  proof -
    have "store_ok 2 (requested (requested w))"
      using that by (simp add: numeral_eq_Suc store_ok_Suc store_ok_0)
    then have ok: "store_ok 2 ?W" "store_ok 2 (emit e ?W)" for e
      by (simp_all add: store_ok_def fetched_simps emit_simps)
    show ?thesis
      using handled_idb_ok [OF ok(1)] handled_idb_ok [OF ok(2)] handled_idb_empty
      by (simp add: eq split: option.splits)
  qed
qed


lemma guard_passes_object:
  "truthy (js_field a k) \<Longrightarrow> \<exists>fs. a = JObj fs"
  by (cases a) (simp_all add: js_field_def)

lemma refreshAccessToken_success:
  assumes "store_ok 3 w" "truthy (stored w ''auth_state'')"
    "truthy (js_field (stored w ''auth_state'') ''refreshToken'')"
    "scheduled w 0 = Resolved r" "ok r" "body r = Inr data"
    "js_member data ''access_token'' = Some access"
    "js_member data ''refresh_token'' = Some refresh"
  shows "refreshAccessToken w =
    (Inr access,
     (requested (fetched refresh_url refresh_headers (requested (requested w))))
       \<lparr>idb := AList.update ''auth_state''
                (JObj (AList.update ''refreshToken'' refresh
                         (AList.update ''accessToken'' access
                            (own_props (stored w ''auth_state'')))))
                (idb w)\<rparr>)"
proof -
  have s: "scheduled (requested (requested w)) 0 = Resolved r"
    using assms(4) by (simp add: scheduled_requested)
  have two: "store_ok 2 w" and f: "next_fault (requested (requested w)) = None"
    using assms(1) by (simp_all add: numeral_eq_Suc store_ok_Suc store_ok_0)
  show ?thesis
    by (simp add: refreshAccessToken_start [OF two assms(2,3)]
        refresh_try_ok [OF s assms(5-8) f] requested_simps)
qed

lemma sample_net_store_ok: "store_ok n (sample_world\<lparr>net := outs\<rparr>)"
  by (simp add: store_ok_def sample_world_def)

lemma sample_net_stored:
  "stored (sample_world\<lparr>net := outs\<rparr>) ''auth_state'' = sample_auth_state"
  "stored (sample_world\<lparr>net := outs\<rparr>) ''install_id'' = JStr ''inst-1''"
  by (simp_all add: stored_def sample_world_def)

lemma sample_auth_state_guard:
  "truthy sample_auth_state"
  "truthy (js_field sample_auth_state ''refreshToken'')"
  "truthy (js_field sample_auth_state ''accessToken'')"
  by (simp_all add: sample_auth_state_def js_field_def)

lemma sample_net_first: "scheduled (sample_world\<lparr>net := out # outs\<rparr>) 0 = out"
  by (simp add: scheduled_def)

lemma server_error_simps:
  "status server_error \<noteq> 401" "\<not> ok server_error"
  "js_member (json_or server_error refresh_failed_pl) ''error'' = Some (JStr ''Refresh failed'')"
  "or_else (JStr ''Refresh failed'') (JStr refresh_failed_pl) = JStr ''Refresh failed''"
  by (simp_all add: server_error_def ok_def json_or_def or_else_def)


lemma refreshed_simps:
  "ok refreshed"
  "body refreshed = Inr (JObj [(''access_token'', JStr ''at-2''), (''refresh_token'', JStr ''rt-2'')])"
  "js_member (JObj [(''access_token'', JStr ''at-2''), (''refresh_token'', JStr ''rt-2'')])
     ''access_token'' = Some (JStr ''at-2'')"
  "js_member (JObj [(''access_token'', JStr ''at-2''), (''refresh_token'', JStr ''rt-2'')])
     ''refresh_token'' = Some (JStr ''rt-2'')"
  by (simp_all add: refreshed_def ok_def)









lemma stored_update_other:
  "key \<noteq> k \<Longrightarrow> stored (w\<lparr>idb := AList.update k v (idb w0)\<rparr>) key = stored w0 key"
  by (simp add: stored_def update_conv')

lemma stored_update_same:
  "stored (w\<lparr>idb := AList.update k v (idb w0)\<rparr>) k = v"
  by (simp add: stored_def update_conv')

text \<open>
  Claim C3, as amended.  Let the store open and hold an \<^verbatim>\<open>auth_state\<close> with a truthy
  refresh token, and let the refresh endpoint answer \<open>r\<close>.  On a 2xx answer whose body
  parses to a value other than \<^verbatim>\<open>null\<close>, and when the write succeeds, the stored
  \<^verbatim>\<open>auth_state\<close> becomes the previous record with \<^verbatim>\<open>accessToken\<close> and \<^verbatim>\<open>refreshToken\<close>
  overwritten: every other field of it and every other record of the store is unchanged,
  and the handler is not entered.  On a non-2xx answer other than 401 (which \<^verbatim>\<open>apiFetch\<close>
  does not hand back) no tokens are written and the handler is entered; the store is
  then empty, \<^verbatim>\<open>auth_state\<close> included, unless the handler's own store requests fail, in
  which case it is as before.
\<close>

theorem refreshAccessToken_store_effect:
  assumes "store_ok 2 w" "truthy (stored w ''auth_state'')"
    "truthy (js_field (stored w ''auth_state'') ''refreshToken'')"
    "scheduled w 0 = Resolved r"
  shows
    "(ok r \<and> body r = Inr data \<and> js_member data ''access_token'' = Some access
        \<and> js_member data ''refresh_token'' = Some refresh \<and> store_ok 3 w \<longrightarrow>
        fst (refreshAccessToken w) = Inr access
        \<and> idb (snd (refreshAccessToken w))
            = AList.update ''auth_state''
                (JObj (AList.update ''refreshToken'' refresh
                         (AList.update ''accessToken'' access
                            (own_props (stored w ''auth_state'')))))
                (idb w)
        \<and> map_of (own_props (stored (snd (refreshAccessToken w)) ''auth_state''))
             ''accessToken'' = Some access
        \<and> map_of (own_props (stored (snd (refreshAccessToken w)) ''auth_state''))
             ''refreshToken'' = Some refresh
        \<and> (\<forall>k. k \<noteq> ''accessToken'' \<and> k \<noteq> ''refreshToken'' \<longrightarrow>
              map_of (own_props (stored (snd (refreshAccessToken w)) ''auth_state'')) k
                = map_of (own_props (stored w ''auth_state'')) k)
        \<and> (\<forall>key. key \<noteq> ''auth_state'' \<longrightarrow>
              stored (snd (refreshAccessToken w)) key = stored w key)
        \<and> invalidations (added w (snd (refreshAccessToken w))) = [])
     \<and> (\<not> ok r \<and> status r \<noteq> 401 \<longrightarrow>
        isl (fst (refreshAccessToken w))
        \<and> JStr refresh_failed_pl \<in> set (invalidations (added w (snd (refreshAccessToken w))))
        \<and> (idb (snd (refreshAccessToken w)) = [] \<or> idb (snd (refreshAccessToken w)) = idb w)
        \<and> (store_ok 4 w \<longrightarrow> idb (snd (refreshAccessToken w)) = []))"
proof (intro conjI impI)
  assume "\<not> ok r \<and> status r \<noteq> 401"
  then have h: "status r \<noteq> 401" "\<not> ok r" by simp_all
  note st = refreshAccessToken_not_ok_state [OF assms h]
  show "isl (fst (refreshAccessToken w))" by (rule st(1))
  show "JStr refresh_failed_pl \<in> set (invalidations (added w (snd (refreshAccessToken w))))"
    by (rule st(2))
  show "idb (snd (refreshAccessToken w)) = [] \<or> idb (snd (refreshAccessToken w)) = idb w"
    by (rule st(4))
  show "idb (snd (refreshAccessToken w)) = []" if "store_ok 4 w"
    using that by (rule st(5))
next
  assume a: "ok r \<and> body r = Inr data \<and> js_member data ''access_token'' = Some access
        \<and> js_member data ''refresh_token'' = Some refresh \<and> store_ok 3 w"
  then have h: "ok r" "body r = Inr data" "js_member data ''access_token'' = Some access"
      "js_member data ''refresh_token'' = Some refresh" and three: "store_ok 3 w"
    by simp_all
  note eq = refreshAccessToken_success [OF three assms(2-4) h]
  show "fst (refreshAccessToken w) = Inr access"
    by (simp add: eq)
  show "idb (snd (refreshAccessToken w))
            = AList.update ''auth_state''
                (JObj (AList.update ''refreshToken'' refresh
                         (AList.update ''accessToken'' access
                            (own_props (stored w ''auth_state'')))))
                (idb w)"
    by (simp add: eq)
  show "map_of (own_props (stored (snd (refreshAccessToken w)) ''auth_state''))
             ''accessToken'' = Some access"
    by (simp add: eq stored_update_same update_conv')
  show "map_of (own_props (stored (snd (refreshAccessToken w)) ''auth_state''))
             ''refreshToken'' = Some refresh"
    by (simp add: eq stored_update_same update_conv')
  show "\<forall>k. k \<noteq> ''accessToken'' \<and> k \<noteq> ''refreshToken'' \<longrightarrow>
              map_of (own_props (stored (snd (refreshAccessToken w)) ''auth_state'')) k
                = map_of (own_props (stored w ''auth_state'')) k"
    by (simp add: eq stored_update_same update_conv')
  show "\<forall>key. key \<noteq> ''auth_state'' \<longrightarrow>
              stored (snd (refreshAccessToken w)) key = stored w key"
    by (simp add: eq stored_update_other)
  show "invalidations (added w (snd (refreshAccessToken w))) = []"
    by (simp add: eq added_def requested_simps fetched_simps)
qed

theorem refreshAccessToken_store_effect_witness:
  "store_ok 3 (sample_world\<lparr>net := [Resolved refreshed]\<rparr>)
   \<and> stored (sample_world\<lparr>net := [Resolved refreshed]\<rparr>) ''auth_state''
       = JObj [ (''accessToken'', JStr ''at-1''), (''refreshToken'', JStr ''rt-1''),
                (''deviceId'', JStr ''dev-1'') ]
   \<and> scheduled (sample_world\<lparr>net := [Resolved refreshed]\<rparr>) 0 = Resolved refreshed
   \<and> ok refreshed
   \<and> fst (refreshAccessToken (sample_world\<lparr>net := [Resolved refreshed]\<rparr>)) = Inr (JStr ''at-2'')
   \<and> idb (snd (refreshAccessToken (sample_world\<lparr>net := [Resolved refreshed]\<rparr>)))
       = [ (''auth_state'',
             JObj [ (''accessToken'', JStr ''at-2''), (''refreshToken'', JStr ''rt-2''),
                    (''deviceId'', JStr ''dev-1'') ]),
           (''install_id'', JStr ''inst-1'') ]"
proof -
  let ?w = "sample_world\<lparr>net := [Resolved refreshed]\<rparr>"
  have a: "store_ok 2 ?w" "store_ok 3 ?w" by (rule sample_net_store_ok)+
  have b: "truthy (stored ?w ''auth_state'')"
    by (simp add: sample_net_stored sample_auth_state_guard)
  have c: "truthy (js_field (stored ?w ''auth_state'') ''refreshToken'')"
    by (simp add: sample_net_stored sample_auth_state_guard)
  have d: "scheduled ?w 0 = Resolved refreshed" by (rule sample_net_first)
  have e: "ok refreshed
      \<and> body refreshed
          = Inr (JObj [(''access_token'', JStr ''at-2''), (''refresh_token'', JStr ''rt-2'')])
      \<and> js_member (JObj [(''access_token'', JStr ''at-2''), (''refresh_token'', JStr ''rt-2'')])
           ''access_token'' = Some (JStr ''at-2'')
      \<and> js_member (JObj [(''access_token'', JStr ''at-2''), (''refresh_token'', JStr ''rt-2'')])
           ''refresh_token'' = Some (JStr ''rt-2'')
      \<and> store_ok 3 ?w"
    using a(2) by (simp add: refreshed_simps)
  have i: "idb ?w = [(''auth_state'', sample_auth_state), (''install_id'', JStr ''inst-1'')]"
    by (simp add: sample_world_def)
  from refreshAccessToken_store_effect [OF a(1) b c d, THEN conjunct1, THEN mp, OF e]
  have "fst (refreshAccessToken ?w) = Inr (JStr ''at-2'')"
    and "idb (snd (refreshAccessToken ?w))
       = AList.update ''auth_state''
           (JObj (AList.update ''refreshToken'' (JStr ''rt-2'')
              (AList.update ''accessToken'' (JStr ''at-2'')
                 (own_props (stored ?w ''auth_state'')))))
           (idb ?w)"
    by simp_all
  then show ?thesis
    using a(2) d e
    by (simp add: sample_net_stored i) (simp add: sample_auth_state_def)
qed

text \<open>
  Claim C3 as stated fails on a non-2xx answer: the stored \<^verbatim>\<open>auth_state\<close> is not left
  untouched, the invalidation deletes it with the rest of the store.
\<close>

theorem refreshAccessToken_wipes_auth_state:
  "stored (sample_world\<lparr>net := [Resolved server_error]\<rparr>) ''auth_state''
     = JObj [ (''accessToken'', JStr ''at-1''), (''refreshToken'', JStr ''rt-1''),
              (''deviceId'', JStr ''dev-1'') ]
   \<and> scheduled (sample_world\<lparr>net := [Resolved server_error]\<rparr>) 0 = Resolved server_error
   \<and> status server_error = 500
   \<and> fst (refreshAccessToken (sample_world\<lparr>net := [Resolved server_error]\<rparr>))
       = Inl (new_Error refresh_failed_pl)
   \<and> idb (snd (refreshAccessToken (sample_world\<lparr>net := [Resolved server_error]\<rparr>))) = []
   \<and> stored (snd (refreshAccessToken (sample_world\<lparr>net := [Resolved server_error]\<rparr>)))
        ''auth_state'' = JUndefined"
proof -
  let ?w = "sample_world\<lparr>net := [Resolved server_error]\<rparr>"
  have b: "truthy (stored ?w ''auth_state'')"
    by (simp add: sample_net_stored sample_auth_state_guard)
  have c: "truthy (js_field (stored ?w ''auth_state'') ''refreshToken'')"
    by (simp add: sample_net_stored sample_auth_state_guard)
  note h = sample_net_store_ok b c sample_net_first server_error_simps(1,2)
  have 1: "fst (refreshAccessToken ?w) = Inl (new_Error refresh_failed_pl)"
    by (simp add: refreshAccessToken_not_ok [OF h] server_error_simps)
  have 2: "idb (snd (refreshAccessToken ?w)) = []"
    by (rule refreshAccessToken_not_ok_state(5) [OF h sample_net_store_ok])
  have 3: "stored (snd (refreshAccessToken ?w)) ''auth_state'' = JUndefined"
    by (simp add: stored_def 2)
  have 4: "status server_error = 500" by (simp add: server_error_def)
  have 5: "stored ?w ''auth_state''
     = JObj [ (''accessToken'', JStr ''at-1''), (''refreshToken'', JStr ''rt-1''),
              (''deviceId'', JStr ''dev-1'') ]"
    by (simp add: sample_net_stored sample_auth_state_def)
  show ?thesis
    using 1 2 3 4 5 sample_net_first [of "Resolved server_error" "[]"] by simp
qed

end
